theory Spec2Isabelle
  imports Main "HOL-Library.Sublist"
begin

section \<open>Data model\<close>

text \<open>
  The records follow the TypeScript object types that \<open>runCreate\<close>
  (\<open>src/cli/commands/create.ts\<close>) reads and builds. An optional property
  (\<open>name?: string\<close>) is a \<open>string option\<close>: \<open>None\<close> is \<open>undefined\<close>.
  Several records have a field called \<open>name\<close>; it is written qualified
  (\<open>CliArgs.name\<close>, \<open>BranchInfo.name\<close>, \<open>CreateRequest.name\<close>).
\<close>

record CliArgs =
  command :: string
  name :: "string option"
  source :: "string option"
  branch :: "string option"

record BranchInfo =
  name :: string
  isRemote :: bool
  isCurrent :: bool

record WorktreeConfig =
  worktreeCopyPatterns :: "string list"
  worktreeCopyIgnores :: "string list"
  worktreePathTemplate :: string
  postCreateCmd :: "string list"
  terminalCommand :: string
  deleteBranchWithWorktree :: bool
  showRemoteBranches :: bool

record RepositoryInfo =
  path :: string

record CreateRequest =
  name :: string
  sourceBranch :: string
  newBranch :: string
  basePath :: string
  isRemoteSource :: bool

section \<open>The collaborators of \<open>runCreate\<close>\<close>

text \<open>
  \<open>runCreate\<close> imports \<open>getWorktreePath\<close>, \<open>validateBranchName\<close> and
  \<open>validateDirectoryName\<close> from \<open>utils/path-utils.js\<close> and \<open>dirname\<close> from
  \<open>node:path\<close>. It takes them here as a record of functions, so that what is
  proved of \<open>runCreate\<close> holds whatever they compute. A validator returns its
  error message, or \<open>None\<close> for \<open>undefined\<close>.
\<close>

record PathUtils =
  getWorktreePath :: "string \<Rightarrow> string \<Rightarrow> string \<Rightarrow> string \<Rightarrow> string \<Rightarrow> string"
  validateBranchName :: "string \<Rightarrow> string option"
  validateDirectoryName :: "string \<Rightarrow> string option"
  dirname :: "string \<Rightarrow> string"

text \<open>
  The \<open>WorktreeService\<close> object with the configuration and Git services it
  hands out, flattened to the four operations \<open>runCreate\<close> uses. An awaited
  call that can reject carries its error message: \<open>getRepositoryInfo\<close> and
  \<open>listBranches\<close> are \<open>Inl msg\<close> when they reject, \<open>createWorktree\<close> is
  \<open>Some msg\<close> when it rejects and \<open>None\<close> when it resolves.
\<close>

record WorktreeService =
  getConfig :: WorktreeConfig
  getRepositoryInfo :: "string + RepositoryInfo"
  listBranches :: "bool \<Rightarrow> string + BranchInfo list"
  createWorktree :: "CreateRequest \<Rightarrow> string option"

text \<open>
  What one run of \<open>runCreate\<close> does, in order: the validator calls, the Git
  Service calls, the call of \<open>createWorktree\<close> with its request, and the line
  written by \<open>console.log\<close>. \<open>thrown\<close> is the message of the \<open>Error\<close> the
  promise rejects with, \<open>None\<close> when it resolves.
\<close>

datatype event =
    ValidateDirectoryName string
  | GetRepositoryInfo
  | ListBranches bool
  | ValidateBranchName string
  | CreateWorktree CreateRequest
  | ConsoleLog string

record Run =
  trace :: "event list"
  thrown :: "string option"

section \<open>\<open>runCreate\<close>\<close>

text \<open>
  JavaScript truthiness of an optional string: \<open>undefined\<close> and the empty
  string are falsy. \<open>truthy x\<close> is the string when \<open>x\<close> is truthy.
\<close>

definition truthy :: "string option \<Rightarrow> string option" where
  "truthy x = (case x of None \<Rightarrow> None | Some s \<Rightarrow> if s = [] then None else Some s)"

text \<open>
  \<open>s.replace(/^[^/]+\//, "")\<close>: the pattern is anchored at the start, takes
  one or more characters other than \<open>/\<close> (greedily, so all of them up to the
  first \<open>/\<close>) and then that \<open>/\<close>. It matches when the string does not start
  with \<open>/\<close> and contains one; the match is removed. Otherwise the string is
  returned as it is.
\<close>

definition replaceRemotePrefix :: "string \<Rightarrow> string" where
  "replaceRemotePrefix s =
     (case dropWhile (\<lambda>c. c \<noteq> CHR ''/'') s of
        [] \<Rightarrow> s
      | _ # rest \<Rightarrow> if takeWhile (\<lambda>c. c \<noteq> CHR ''/'') s = [] then s else rest)"

definition sourceNotFoundMessage :: "string \<Rightarrow> string" where
  "sourceNotFoundMessage src =
     ''Source branch '' @ CHR 0x27 # src @ CHR 0x27 # '' does not exist''"

text \<open>
  \<open>runCreate\<close>, statement by statement. A \<open>throw\<close>, or an awaited call that
  rejects, ends the run with \<open>thrown\<close> set and the trace of the calls made so
  far. \<open>!args.name\<close>, \<open>!args.source\<close>, \<open>if (dirError)\<close>, \<open>!args.branch\<close>,
  \<open>if (args.branch)\<close> and \<open>if (branchError)\<close> are truthiness tests;
  \<open>args.branch ?? defaultBranch\<close> replaces \<open>undefined\<close> only; \<open>find\<close> returns
  the first branch of the listing with the name of the source. \<open>checked\<close> is
  the block \<open>if (args.branch) { ... }\<close>: the call it makes, if any, and the
  error the validator returned.
\<close>

definition runCreate :: "PathUtils \<Rightarrow> WorktreeService \<Rightarrow> CliArgs \<Rightarrow> Run" where
  "runCreate utils worktreeService args =
    (case truthy (CliArgs.name args) of
       None \<Rightarrow> \<lparr>trace = [], thrown = Some ''Missing required argument: --name (-n)''\<rparr>
     | Some argName \<Rightarrow>
    (case truthy (source args) of
       None \<Rightarrow> \<lparr>trace = [], thrown = Some ''Missing required argument: --source (-s)''\<rparr>
     | Some argSource \<Rightarrow>
    (case truthy (validateDirectoryName utils argName) of
       Some dirError \<Rightarrow>
         \<lparr>trace = [ValidateDirectoryName argName],
          thrown = Some (''Invalid directory name: '' @ dirError)\<rparr>
     | None \<Rightarrow>
    (let config = getConfig worktreeService in
     case getRepositoryInfo worktreeService of
       Inl err \<Rightarrow>
         \<lparr>trace = [ValidateDirectoryName argName, GetRepositoryInfo], thrown = Some err\<rparr>
     | Inr repoInfo \<Rightarrow>
    (let events = [ValidateDirectoryName argName, GetRepositoryInfo,
                   ListBranches (showRemoteBranches config)] in
     case listBranches worktreeService (showRemoteBranches config) of
       Inl err \<Rightarrow> \<lparr>trace = events, thrown = Some err\<rparr>
     | Inr allBranches \<Rightarrow>
    (case find (\<lambda>b. BranchInfo.name b = argSource) allBranches of
       None \<Rightarrow> \<lparr>trace = events, thrown = Some (sourceNotFoundMessage argSource)\<rparr>
     | Some sourceBranchInfo \<Rightarrow>
    (let defaultBranch =
           (if truthy (branch args) = None \<and> isRemote sourceBranchInfo
            then replaceRemotePrefix argSource else argSource);
         newBranch = (case branch args of None \<Rightarrow> defaultBranch | Some b \<Rightarrow> b);
         checked = (case truthy (branch args) of
                      None \<Rightarrow> ([], None)
                    | Some b \<Rightarrow> ([ValidateBranchName b], truthy (validateBranchName utils b)))
     in
     case snd checked of
       Some branchError \<Rightarrow>
         \<lparr>trace = events @ fst checked,
          thrown = Some (''Invalid branch name: '' @ branchError)\<rparr>
     | None \<Rightarrow>
    (let worktreePath =
           getWorktreePath utils (path repoInfo) argName (worktreePathTemplate config)
             newBranch argSource;
         request =
           \<lparr>CreateRequest.name = argName, sourceBranch = argSource, newBranch = newBranch,
            basePath = dirname utils worktreePath,
            isRemoteSource = isRemote sourceBranchInfo\<rparr>
     in
     case createWorktree worktreeService request of
       Some err \<Rightarrow>
         \<lparr>trace = events @ fst checked @ [CreateWorktree request], thrown = Some err\<rparr>
     | None \<Rightarrow>
         \<lparr>trace = events @ fst checked @ [CreateWorktree request, ConsoleLog worktreePath],
          thrown = None\<rparr>))))))))"

section \<open>Name validation\<close>

text \<open>
  \<open>utils/path-utils.js\<close>, which defines \<open>validateDirectoryName\<close> and
  \<open>validateBranchName\<close>, is not among the sources: only its caller \<open>runCreate\<close>
  and the tests of \<open>runCreate\<close> are. The two validators are taken from section
  4.4 of the specification. The wording of their messages is not given there,
  only that there is one.
\<close>

text \<open>
  Modelled from the spec: the path separators that \<open>validateDirectoryName\<close>
  looks for, \<open>/\<close> and the backslash.
\<close>

definition isPathSeparator :: "char \<Rightarrow> bool" where
  "isPathSeparator c \<longleftrightarrow> c = CHR ''/'' \<or> c = CHR 0x5C"

text \<open>
  Modelled from the spec: \<open>validateDirectoryName\<close> of \<open>utils/path-utils.js\<close>.
  Section 4.4: it rejects empty names, names containing path separators, and
  names beginning with a dot.
\<close>

definition validateDirectoryName_spec :: "string \<Rightarrow> string option" where
  "validateDirectoryName_spec dirName =
     (case dirName of
        [] \<Rightarrow> Some ''Directory name cannot be empty''
      | c # _ \<Rightarrow>
          if list_ex isPathSeparator dirName
          then Some ''Directory name cannot contain path separators''
          else if c = CHR ''.'' then Some ''Directory name cannot start with a dot''
          else None)"

text \<open>
  Modelled from the spec: the whitespace characters that \<open>validateBranchName\<close>
  rejects: space, tab, line feed, vertical tab, form feed, carriage return.
\<close>

definition isWhitespace :: "char \<Rightarrow> bool" where
  "isWhitespace c \<longleftrightarrow>
     c = CHR 0x20 \<or> c = CHR 0x09 \<or> c = CHR 0x0A \<or> c = CHR 0x0B \<or> c = CHR 0x0C \<or> c = CHR 0x0D"

text \<open>
  Modelled from the spec: the other characters Git disallows in ref names,
  those of git-check-ref-format: ASCII control characters and DEL, space, \<open>~\<close>,
  \<open>^\<close>, \<open>:\<close>, \<open>?\<close>, \<open>*\<close>, \<open>[\<close> and the backslash.
\<close>

definition isGitDisallowedChar :: "char \<Rightarrow> bool" where
  "isGitDisallowedChar c \<longleftrightarrow>
     (of_char c :: nat) < 32 \<or> c = CHR 0x7F \<or> c = CHR 0x20 \<or> c = CHR ''~'' \<or> c = CHR ''^'' \<or>
     c = CHR '':'' \<or> c = CHR ''?'' \<or> c = CHR ''*'' \<or> c = CHR ''['' \<or> c = CHR 0x5C"

text \<open>
  Modelled from the spec: \<open>validateBranchName\<close> of \<open>utils/path-utils.js\<close>.
  Section 4.4: it rejects embedded whitespace and other characters Git
  disallows in ref names.
\<close>

definition validateBranchName_spec :: "string \<Rightarrow> string option" where
  "validateBranchName_spec branchName =
     (if list_ex isWhitespace branchName
      then Some ''Branch name cannot contain whitespace''
      else if list_ex isGitDisallowedChar branchName
      then Some ''Branch name contains invalid characters''
      else None)"

section \<open>Branch listing\<close>

text \<open>
  Modelled from the spec: the repository as the Git Service (\<open>services/\<close>,
  not among the sources) reads it for a branch listing: the local branch
  names, the remote ones (section 3: \<open><remote>/<branch>\<close>), and the branch that
  is checked out.
\<close>

record Repository =
  localBranches :: "string list"
  remoteBranches :: "string list"
  currentBranch :: string

text \<open>
  Modelled from the spec: \<open>listBranches\<close> of the Git Service. Section 4.2:
  local branches first, then the remote branches when \<open>includeRemote\<close> is
  true; section 3: a branch is its name with the flags \<open>isRemote\<close> and
  \<open>isCurrent\<close>.
\<close>

definition listBranches_spec :: "Repository \<Rightarrow> bool \<Rightarrow> BranchInfo list" where
  "listBranches_spec repo includeRemote =
     map (\<lambda>n. \<lparr>BranchInfo.name = n, isRemote = False, isCurrent = (n = currentBranch repo)\<rparr>)
       (localBranches repo) @
     (if includeRemote
      then map (\<lambda>n. \<lparr>BranchInfo.name = n, isRemote = True, isCurrent = False\<rparr>)
             (remoteBranches repo)
      else [])"

section \<open>Configuration defaults\<close>

text \<open>
  Modelled from the spec: the objects that \<open>WorktreeConfigSchema\<close>
  (\<open>schemas/config-schema.js\<close>, not among the sources) parses. Sections 3 and
  6: seven fields, none required. An object is a record of optional fields;
  \<open>emptyObject\<close> is \<open>{}\<close>.
\<close>

record ConfigObject =
  worktreeCopyPatterns_opt :: "string list option"
  worktreeCopyIgnores_opt :: "string list option"
  worktreePathTemplate_opt :: "string option"
  postCreateCmd_opt :: "string list option"
  terminalCommand_opt :: "string option"
  deleteBranchWithWorktree_opt :: "bool option"
  showRemoteBranches_opt :: "bool option"

definition emptyObject :: ConfigObject where
  "emptyObject =
     \<lparr>worktreeCopyPatterns_opt = None, worktreeCopyIgnores_opt = None,
      worktreePathTemplate_opt = None, postCreateCmd_opt = None, terminalCommand_opt = None,
      deleteBranchWithWorktree_opt = None, showRemoteBranches_opt = None\<rparr>"

definition withDefault :: "'a \<Rightarrow> 'a option \<Rightarrow> 'a" where
  "withDefault d x = (case x of None \<Rightarrow> d | Some v \<Rightarrow> v)"

text \<open>
  Modelled from the spec: \<open>WorktreeConfigSchema.parse\<close>. Section 6 gives the
  documented default of each field, which the test of the generated JSON
  schema repeats; a field that is absent takes its default.
\<close>

definition WorktreeConfigSchema_parse :: "ConfigObject \<Rightarrow> WorktreeConfig" where
  "WorktreeConfigSchema_parse obj =
     \<lparr>worktreeCopyPatterns =
        withDefault [''.env*'', ''.vscode/**''] (worktreeCopyPatterns_opt obj),
      worktreeCopyIgnores =
        withDefault [''**/node_modules/**'', ''**/dist/**'', ''**/.git/**'', ''**/Thumbs.db'',
                     ''**/.DS_Store'']
          (worktreeCopyIgnores_opt obj),
      worktreePathTemplate = withDefault ''$BASE_PATH.worktree'' (worktreePathTemplate_opt obj),
      postCreateCmd = withDefault [] (postCreateCmd_opt obj),
      terminalCommand = withDefault [] (terminalCommand_opt obj),
      deleteBranchWithWorktree = withDefault False (deleteBranchWithWorktree_opt obj),
      showRemoteBranches = withDefault True (showRemoteBranches_opt obj)\<rparr>"

text \<open>\<open>constants/default-config.ts\<close>: \<open>WorktreeConfigSchema.parse({})\<close>.\<close>

definition DEFAULT_CONFIG :: WorktreeConfig where
  "DEFAULT_CONFIG = WorktreeConfigSchema_parse emptyObject"

section \<open>Creating the worktree and running the post-create commands\<close>

text \<open>
  \<open>createWorktree\<close> of the \<open>WorktreeService\<close> and the post-create command
  executor (\<open>services/\<close>) are not among the sources: only the caller
  \<open>runCreate\<close> and a test of the command-line output are. They are taken from
  sections 3, 4.6, 4.7, 6 and 7 of the specification.
\<close>

text \<open>
  Modelled from the spec: the result of a subprocess. Section 3: a
  \<open>CommandResult\<close> has \<open>stdout\<close>, \<open>stderr\<close>, \<open>exitCode\<close> and \<open>success\<close>. A shell
  command either cannot be spawned or exits with such a result.
\<close>

record CommandResult =
  stdout :: string
  stderr :: string
  exitCode :: int
  success :: bool

datatype outcome = SpawnFailed string | Exited CommandResult

text \<open>
  Modelled from the spec: what the operation runs on. The operating system is
  a state \<open>'w\<close> that every subprocess and file operation reads and changes:
  the two worktree commands of the Git Service (section 4.2), the File Copy
  Engine (section 4.5), which returns the failures of individual files, and
  the shell that runs one post-create command in a directory. A \<open>step\<close> records
  one such operation as the orchestrator issues it.
\<close>

record 'w Platform =
  gitWorktreeAdd :: "string \<Rightarrow> CreateRequest \<Rightarrow> 'w \<Rightarrow> CommandResult \<times> 'w"
  gitWorktreeRemove :: "string \<Rightarrow> bool \<Rightarrow> 'w \<Rightarrow> CommandResult \<times> 'w"
  copyFiles :: "string \<Rightarrow> string \<Rightarrow> string list \<Rightarrow> string list \<Rightarrow> 'w \<Rightarrow> string list \<times> 'w"
  runShell :: "string \<Rightarrow> string \<Rightarrow> 'w \<Rightarrow> outcome \<times> 'w"

datatype step =
    GitWorktreeAdd string
  | GitWorktreeRemove string
  | FilesCopied string
  | CommandRun string outcome




text \<open>
  Modelled from the spec: the post-create command executor. Section 4.6: the
  commands run in order inside the new worktree, each awaited before the next;
  after a non-zero exit or a spawn failure execution continues to the next
  command.
\<close>

fun runPostCreateCommands ::
    "(string \<Rightarrow> string \<Rightarrow> 'w \<Rightarrow> outcome \<times> 'w) \<Rightarrow> string list \<Rightarrow> string \<Rightarrow> 'w \<Rightarrow>
     (string \<times> outcome) list \<times> 'w" where
  "runPostCreateCommands sh [] cwd w = ([], w)"
| "runPostCreateCommands sh (c # cs) cwd w =
     (case sh c cwd w of
        (r, w') \<Rightarrow>
          (case runPostCreateCommands sh cs cwd w' of
             (rs, w'') \<Rightarrow> ((c, r) # rs, w'')))"

text \<open>
  Modelled from the spec: a failed command (non-zero exit or spawn failure)
  and its warning, with the command text and the captured stderr (section
  4.6). The test of the command-line output gives the head of the warning.
\<close>

definition commandFailed :: "outcome \<Rightarrow> bool" where
  "commandFailed r = (case r of SpawnFailed msg \<Rightarrow> True | Exited res \<Rightarrow> exitCode res \<noteq> 0)"

definition postCreateWarning :: "string \<Rightarrow> outcome \<Rightarrow> string" where
  "postCreateWarning cmd r =
     ''Warning: post-create command failed: '' @ cmd @ '': '' @
     (case r of SpawnFailed msg \<Rightarrow> msg | Exited res \<Rightarrow> stderr res)"

definition postCreateWarnings :: "(string \<times> outcome) list \<Rightarrow> string list" where
  "postCreateWarnings results =
     map (\<lambda>(cmd, r). postCreateWarning cmd r) (filter (\<lambda>(cmd, r). commandFailed r) results)"

text \<open>
  Modelled from the spec: \<open>createWorktree\<close> of the \<open>WorktreeService\<close>, from the
  request that \<open>runCreate\<close> has validated and resolved and the path resolved
  for it. Section 4.7: \<open>GitCreating\<close>, \<open>FileCopying\<close>, \<open>PostCreateRunning\<close>,
  \<open>Done\<close>; a failure of \<open>GitCreating\<close> is terminal and reported with the
  captured stderr (section 7); the failures of the two later stages are
  warnings. Section 6: the result is the path with the warnings.
\<close>

record CreateResult =
  resultPath :: string
  warnings :: "string list"

record 'w CreateOutcome =
  result :: "string + CreateResult"
  steps :: "step list"
  world :: 'w

definition createWorktree_spec ::
    "'w Platform \<Rightarrow> WorktreeConfig \<Rightarrow> string \<Rightarrow> string \<Rightarrow> CreateRequest \<Rightarrow> 'w \<Rightarrow>
     'w CreateOutcome" where
  "createWorktree_spec platform config repoRoot worktreePath request w =
     (case gitWorktreeAdd platform worktreePath request w of
        (added, w1) \<Rightarrow>
          if \<not> success added
          then \<lparr>result = Inl (stderr added), steps = [GitWorktreeAdd worktreePath], world = w1\<rparr>
          else
            (case copyFiles platform repoRoot worktreePath (worktreeCopyPatterns config)
                    (worktreeCopyIgnores config) w1 of
               (copyFailures, w2) \<Rightarrow>
                 (case runPostCreateCommands (runShell platform) (postCreateCmd config)
                         worktreePath w2 of
                    (results, w3) \<Rightarrow>
                      \<lparr>result = Inr \<lparr>resultPath = worktreePath,
                                      warnings = copyFailures @ postCreateWarnings results\<rparr>,
                       steps = GitWorktreeAdd worktreePath # FilesCopied worktreePath #
                               map (\<lambda>(cmd, r). CommandRun cmd r) results,
                       world = w3\<rparr>)))"

text \<open>
  Modelled from the spec: what the user sees. Section 7: a failed create
  reports a message on the error stream and a non-zero exit; a successful one
  reports the path on the output stream and the warnings on the error stream,
  with a zero exit.
\<close>

record ProcessOutput =
  outputStream :: "string list"
  errorStream :: "string list"
  exitStatus :: int

definition report :: "string + CreateResult \<Rightarrow> ProcessOutput" where
  "report r =
     (case r of
        Inl msg \<Rightarrow> \<lparr>outputStream = [], errorStream = [msg], exitStatus = 1\<rparr>
      | Inr created \<Rightarrow>
          \<lparr>outputStream = [resultPath created], errorStream = warnings created,
           exitStatus = 0\<rparr>)"

text \<open>
  A platform for the run of the test: Git adds the worktree, nothing is
  copied, and no command can be spawned. Its state counts the operations.
\<close>

definition samplePlatform :: "nat Platform" where
  "samplePlatform =
     \<lparr>gitWorktreeAdd =
        (\<lambda>p request w. (\<lparr>stdout = [], stderr = [], exitCode = 0, success = True\<rparr>, Suc w)),
      gitWorktreeRemove =
        (\<lambda>p force w. (\<lparr>stdout = [], stderr = [], exitCode = 0, success = True\<rparr>, Suc w)),
      copyFiles = (\<lambda>repoRoot dest patterns ignores w. ([], Suc w)),
      runShell = (\<lambda>cmd cwd w. (SpawnFailed ''command not found'', Suc w))\<rparr>"

section \<open>Sample collaborators\<close>

text \<open>
  Concrete collaborators for the runs evaluated below: a repository with one
  local branch and three remote ones, a service over it whose
  \<open>createWorktree\<close> resolves, and path utilities whose validators are the ones
  modelled above. \<open>sampleGetWorktreePath\<close> and \<open>sampleDirname\<close> stand
  in for \<open>getWorktreePath\<close> and \<open>dirname\<close>: the first puts the directory under
  the repository path suffixed with \<open>.worktree\<close>, the second drops the last
  component of such a path.
\<close>

definition sampleGetWorktreePath ::
    "string \<Rightarrow> string \<Rightarrow> string \<Rightarrow> string \<Rightarrow> string \<Rightarrow> string" where
  "sampleGetWorktreePath repoPath dirName template newBranchName sourceName =
     repoPath @ ''.worktree/'' @ dirName"

definition sampleDirname :: "string \<Rightarrow> string" where
  "sampleDirname p = rev (drop 1 (dropWhile (\<lambda>c. c \<noteq> CHR ''/'') (rev p)))"

definition sampleUtils :: PathUtils where
  "sampleUtils =
     \<lparr>getWorktreePath = sampleGetWorktreePath,
      validateBranchName = validateBranchName_spec,
      validateDirectoryName = validateDirectoryName_spec,
      dirname = sampleDirname\<rparr>"

definition sampleRepository :: Repository where
  "sampleRepository =
     \<lparr>localBranches = [''main''],
      remoteBranches = [''origin/HEAD'', ''origin/main'', ''origin/feat/x''],
      currentBranch = ''main''\<rparr>"

definition sampleService :: "WorktreeConfig \<Rightarrow> WorktreeService" where
  "sampleService config =
     \<lparr>getConfig = config,
      getRepositoryInfo = Inr \<lparr>path = ''/home/dev/repo''\<rparr>,
      listBranches = (\<lambda>includeRemote. Inr (listBranches_spec sampleRepository includeRemote)),
      createWorktree = (\<lambda>request. None)\<rparr>"

text \<open>
  A second repository, in which a local branch has the name of a remote one
  (\<open>git branch origin/feat/x\<close> makes such a branch), and a service over it
  that is configured not to show the remote branches.
\<close>

definition homonymRepository :: Repository where
  "homonymRepository =
     \<lparr>localBranches = [''main'', ''origin/feat/x''],
      remoteBranches = [''origin/HEAD'', ''origin/main'', ''origin/feat/x''],
      currentBranch = ''main''\<rparr>"

definition homonymService :: WorktreeService where
  "homonymService =
     \<lparr>getConfig = DEFAULT_CONFIG\<lparr>showRemoteBranches := False\<rparr>,
      getRepositoryInfo = Inr \<lparr>path = ''/home/dev/repo''\<rparr>,
      listBranches = (\<lambda>includeRemote. Inr (listBranches_spec homonymRepository includeRemote)),
      createWorktree = (\<lambda>request. None)\<rparr>"

section \<open>Facts about \<open>runCreate\<close>\<close>

lemmas sample_defs =
  sampleUtils_def sampleService_def sampleRepository_def sampleGetWorktreePath_def
  sampleDirname_def listBranches_spec_def DEFAULT_CONFIG_def WorktreeConfigSchema_parse_def
  emptyObject_def withDefault_def validateDirectoryName_spec_def validateBranchName_spec_def
  isPathSeparator_def isWhitespace_def isGitDisallowedChar_def

lemmas run_defs = runCreate_def truthy_def replaceRemotePrefix_def sourceNotFoundMessage_def

lemma truthy_Some_iff: "truthy x = Some s \<longleftrightarrow> x = Some s \<and> s \<noteq> []"
  by (auto simp: truthy_def split: option.splits)

lemma truthy_None_iff: "truthy x = None \<longleftrightarrow> x = None \<or> x = Some []"
  by (auto simp: truthy_def split: option.splits)

lemma dropWhile_no_slash:
  "CHR ''/'' \<notin> set remote \<Longrightarrow>
   dropWhile (\<lambda>c. c \<noteq> CHR ''/'') (remote @ CHR ''/'' # rest) = CHR ''/'' # rest"
  by (induction remote) auto

lemma takeWhile_no_slash:
  "CHR ''/'' \<notin> set remote \<Longrightarrow>
   takeWhile (\<lambda>c. c \<noteq> CHR ''/'') (remote @ CHR ''/'' # rest) = remote"
  by (induction remote) auto

lemma replaceRemotePrefix_form:
  assumes "remote \<noteq> []" "CHR ''/'' \<notin> set remote"
  shows "replaceRemotePrefix (remote @ CHR ''/'' # rest) = rest"
  using assms
  by (simp add: replaceRemotePrefix_def dropWhile_no_slash takeWhile_no_slash)

lemma replaceRemotePrefix_other:
  assumes "\<not> (\<exists>remote rest. s = remote @ CHR ''/'' # rest \<and> remote \<noteq> [] \<and> CHR ''/'' \<notin> set remote)"
  shows "replaceRemotePrefix s = s"
proof (cases "dropWhile (\<lambda>c. c \<noteq> CHR ''/'') s")
  case Nil
  show ?thesis unfolding replaceRemotePrefix_def Nil by simp
next
  case (Cons c rest)
  have c: "c = CHR ''/''"
    using hd_dropWhile[of "\<lambda>c. c \<noteq> CHR ''/''" s] Cons by auto
  have s: "s = takeWhile (\<lambda>c. c \<noteq> CHR ''/'') s @ CHR ''/'' # rest"
    using takeWhile_dropWhile_id[of "\<lambda>c. c \<noteq> CHR ''/''" s] Cons c by simp
  have "CHR ''/'' \<notin> set (takeWhile (\<lambda>c. c \<noteq> CHR ''/'') s)"
    using set_takeWhileD by fastforce
  with assms s have "takeWhile (\<lambda>c. c \<noteq> CHR ''/'') s = []"
    by blast
  then show ?thesis unfolding replaceRemotePrefix_def Cons by simp
qed


lemma runCreate_reached:
  assumes "truthy (CliArgs.name args) = Some argName"
    and "truthy (source args) = Some argSource"
    and "truthy (validateDirectoryName utils argName) = None"
    and "getRepositoryInfo svc = Inr repoInfo"
    and "listBranches svc (showRemoteBranches (getConfig svc)) = Inr allBranches"
    and "find (\<lambda>b. BranchInfo.name b = argSource) allBranches = Some info"
    and "\<And>b. truthy (branch args) = Some b \<Longrightarrow> truthy (validateBranchName utils b) = None"
  shows "\<exists>req. newBranch req =
             (case branch args of
                None \<Rightarrow> if isRemote info then replaceRemotePrefix argSource else argSource
              | Some b \<Rightarrow> b) \<and>
           CreateRequest.name req = argName \<and> sourceBranch req = argSource \<and>
           isRemoteSource req = isRemote info \<and>
           runCreate utils svc args =
           \<lparr>trace =
             [ValidateDirectoryName argName, GetRepositoryInfo,
              ListBranches (showRemoteBranches (getConfig svc))] @
             (case truthy (branch args) of None \<Rightarrow> [] | Some b \<Rightarrow> [ValidateBranchName b]) @
             CreateWorktree req #
             (case createWorktree svc req of
                None \<Rightarrow> [ConsoleLog (getWorktreePath utils (path repoInfo) argName
                          (worktreePathTemplate (getConfig svc)) (newBranch req) argSource)]
              | Some err \<Rightarrow> []),
            thrown = createWorktree svc req\<rparr>"
proof -
  have tr: "truthy None = None" "truthy (Some []) = None"
    by (simp_all add: truthy_def)
  show ?thesis
  proof (cases "truthy (branch args)")
    case None
    then consider "branch args = None" | "branch args = Some []"
      by (auto simp: truthy_None_iff)
    then show ?thesis
    proof cases
      case 1
      then show ?thesis
        unfolding runCreate_def Let_def using assms(1-6)
        by (simp add: tr split: option.splits)
    next
      case 2
      then show ?thesis
        unfolding runCreate_def Let_def using assms(1-6)
        by (simp add: tr split: option.splits)
    qed
  next
    case (Some b)
    then have b: "branch args = Some b" and tb: "truthy (Some b) = Some b"
      by (simp_all add: truthy_Some_iff)
    from assms(7)[OF Some] have vb: "truthy (validateBranchName utils b) = None" .
    show ?thesis
      unfolding runCreate_def Let_def using assms(1-6)
      by (simp add: b tb vb split: option.splits)
  qed
qed


lemma runCreate_outcomes:
  obtains
    (NoName) "truthy (CliArgs.name args) = None"
      "runCreate utils svc args =
         \<lparr>trace = [], thrown = Some ''Missing required argument: --name (-n)''\<rparr>"
  | (NoSource) "truthy (source args) = None"
      "runCreate utils svc args =
         \<lparr>trace = [], thrown = Some ''Missing required argument: --source (-s)''\<rparr>"
  | (BadDirectory) argName dirError where
      "truthy (CliArgs.name args) = Some argName"
      "truthy (validateDirectoryName utils argName) = Some dirError"
      "runCreate utils svc args =
         \<lparr>trace = [ValidateDirectoryName argName],
          thrown = Some (''Invalid directory name: '' @ dirError)\<rparr>"
  | (NoRepository) argName err where
      "truthy (CliArgs.name args) = Some argName"
      "truthy (validateDirectoryName utils argName) = None"
      "getRepositoryInfo svc = Inl err"
      "runCreate utils svc args =
         \<lparr>trace = [ValidateDirectoryName argName, GetRepositoryInfo], thrown = Some err\<rparr>"
  | (NoListing) argName err where
      "truthy (CliArgs.name args) = Some argName"
      "truthy (validateDirectoryName utils argName) = None"
      "listBranches svc (showRemoteBranches (getConfig svc)) = Inl err"
      "runCreate utils svc args =
         \<lparr>trace = [ValidateDirectoryName argName, GetRepositoryInfo,
                   ListBranches (showRemoteBranches (getConfig svc))],
          thrown = Some err\<rparr>"
  | (NotFound) argName argSource allBranches where
      "truthy (CliArgs.name args) = Some argName"
      "truthy (source args) = Some argSource"
      "truthy (validateDirectoryName utils argName) = None"
      "find (\<lambda>b. BranchInfo.name b = argSource) allBranches = None"
      "runCreate utils svc args =
         \<lparr>trace = [ValidateDirectoryName argName, GetRepositoryInfo,
                   ListBranches (showRemoteBranches (getConfig svc))],
          thrown = Some (sourceNotFoundMessage argSource)\<rparr>"
      "listBranches svc (showRemoteBranches (getConfig svc)) = Inr allBranches"
  | (BadBranch) argName argSource allBranches info b branchError where
      "truthy (CliArgs.name args) = Some argName"
      "truthy (source args) = Some argSource"
      "truthy (validateDirectoryName utils argName) = None"
      "find (\<lambda>b. BranchInfo.name b = argSource) allBranches = Some info"
      "truthy (branch args) = Some b"
      "truthy (validateBranchName utils b) = Some branchError"
      "runCreate utils svc args =
         \<lparr>trace = [ValidateDirectoryName argName, GetRepositoryInfo,
                   ListBranches (showRemoteBranches (getConfig svc)), ValidateBranchName b],
          thrown = Some (''Invalid branch name: '' @ branchError)\<rparr>"
      "listBranches svc (showRemoteBranches (getConfig svc)) = Inr allBranches"
  | (Reached) argName argSource repoInfo allBranches info where
      "truthy (CliArgs.name args) = Some argName"
      "truthy (source args) = Some argSource"
      "truthy (validateDirectoryName utils argName) = None"
      "getRepositoryInfo svc = Inr repoInfo"
      "listBranches svc (showRemoteBranches (getConfig svc)) = Inr allBranches"
      "find (\<lambda>b. BranchInfo.name b = argSource) allBranches = Some info"
      "\<And>b. truthy (branch args) = Some b \<Longrightarrow> truthy (validateBranchName utils b) = None"
proof (cases "truthy (CliArgs.name args)")
  case None
  then have "runCreate utils svc args =
         \<lparr>trace = [], thrown = Some ''Missing required argument: --name (-n)''\<rparr>"
    unfolding runCreate_def by simp
  with None show ?thesis by (rule NoName)
next
  case n: (Some argName)
  show ?thesis
  proof (cases "truthy (source args)")
    case None
    then have "runCreate utils svc args =
         \<lparr>trace = [], thrown = Some ''Missing required argument: --source (-s)''\<rparr>"
      unfolding runCreate_def using n by simp
    with None show ?thesis by (rule NoSource)
  next
    case s: (Some argSource)
    show ?thesis
    proof (cases "truthy (validateDirectoryName utils argName)")
      case (Some dirError)
      then have "runCreate utils svc args =
         \<lparr>trace = [ValidateDirectoryName argName],
          thrown = Some (''Invalid directory name: '' @ dirError)\<rparr>"
        unfolding runCreate_def using n s by simp
      with n Some show ?thesis by (rule BadDirectory)
    next
      case d: None
      show ?thesis
      proof (cases "getRepositoryInfo svc")
        case (Inl err)
        then have "runCreate utils svc args =
           \<lparr>trace = [ValidateDirectoryName argName, GetRepositoryInfo], thrown = Some err\<rparr>"
          unfolding runCreate_def using n s d by simp
        with n d Inl show ?thesis by (rule NoRepository)
      next
        case r: (Inr repoInfo)
        show ?thesis
        proof (cases "listBranches svc (showRemoteBranches (getConfig svc))")
          case (Inl err)
          then have "runCreate utils svc args =
             \<lparr>trace = [ValidateDirectoryName argName, GetRepositoryInfo,
                       ListBranches (showRemoteBranches (getConfig svc))],
              thrown = Some err\<rparr>"
            unfolding runCreate_def Let_def using n s d r by simp
          with n d Inl show ?thesis by (rule NoListing)
        next
        case l: (Inr allBranches)
        show ?thesis
        proof (cases "find (\<lambda>b. BranchInfo.name b = argSource) allBranches")
          case None
          then have "runCreate utils svc args =
             \<lparr>trace = [ValidateDirectoryName argName, GetRepositoryInfo,
                       ListBranches (showRemoteBranches (getConfig svc))],
              thrown = Some (sourceNotFoundMessage argSource)\<rparr>"
            unfolding runCreate_def Let_def using n s d r l by simp
          from n s d None this l show ?thesis by (rule NotFound)
        next
          case f: (Some info)
          show ?thesis
          proof (cases "\<exists>b branchError. truthy (branch args) = Some b \<and>
                          truthy (validateBranchName utils b) = Some branchError")
            case True
            then obtain b branchError where
              b: "truthy (branch args) = Some b"
              and e: "truthy (validateBranchName utils b) = Some branchError"
              by blast
            from b have ba: "branch args = Some b" and tb: "truthy (Some b) = Some b"
              by (simp_all add: truthy_Some_iff)
            have "runCreate utils svc args =
               \<lparr>trace = [ValidateDirectoryName argName, GetRepositoryInfo,
                   ListBranches (showRemoteBranches (getConfig svc)), ValidateBranchName b],
                thrown = Some (''Invalid branch name: '' @ branchError)\<rparr>"
              unfolding runCreate_def Let_def using n s d r l f by (simp add: ba tb e)
            from n s d f b e this l show ?thesis by (rule BadBranch)
          next
            case False
            then have "\<And>b. truthy (branch args) = Some b \<Longrightarrow>
                         truthy (validateBranchName utils b) = None"
              by (metis not_Some_eq)
            with n s d r l f show ?thesis by (rule Reached)
          qed
        qed
        qed
      qed
    qed
  qed
qed


lemma runCreate_CreateWorktreeD:
  assumes "CreateWorktree req \<in> set (trace (runCreate utils svc args))"
  obtains argName argSource repoInfo allBranches info where
    "truthy (CliArgs.name args) = Some argName"
    "truthy (source args) = Some argSource"
    "truthy (validateDirectoryName utils argName) = None"
    "getRepositoryInfo svc = Inr repoInfo"
    "listBranches svc (showRemoteBranches (getConfig svc)) = Inr allBranches"
    "find (\<lambda>b. BranchInfo.name b = argSource) allBranches = Some info"
    "\<And>b. truthy (branch args) = Some b \<Longrightarrow> truthy (validateBranchName utils b) = None"
    "newBranch req =
       (case branch args of
          None \<Rightarrow> if isRemote info then replaceRemotePrefix argSource else argSource
        | Some b \<Rightarrow> b)"
    "CreateRequest.name req = argName" "sourceBranch req = argSource"
    "isRemoteSource req = isRemote info"
    "runCreate utils svc args =
       \<lparr>trace =
          [ValidateDirectoryName argName, GetRepositoryInfo,
           ListBranches (showRemoteBranches (getConfig svc))] @
          (case truthy (branch args) of None \<Rightarrow> [] | Some b \<Rightarrow> [ValidateBranchName b]) @
          CreateWorktree req #
          (case createWorktree svc req of
             None \<Rightarrow> [ConsoleLog (getWorktreePath utils (path repoInfo) argName
                       (worktreePathTemplate (getConfig svc)) (newBranch req) argSource)]
           | Some err \<Rightarrow> []),
        thrown = createWorktree svc req\<rparr>"
proof (cases utils svc args rule: runCreate_outcomes)
  case NoName
  with assms show ?thesis by simp
next
  case NoSource
  with assms show ?thesis by simp
next
  case (BadDirectory argName dirError)
  with assms show ?thesis by simp
next
  case (NoRepository argName err)
  with assms show ?thesis by simp
next
  case (NoListing argName err)
  with assms show ?thesis by simp
next
  case (NotFound argName argSource allBranches)
  with assms show ?thesis by simp
next
  case (BadBranch argName argSource allBranches info b branchError)
  with assms show ?thesis by simp
next
  case (Reached argName argSource repoInfo allBranches info)
  from runCreate_reached[OF Reached] obtain req' where
    req': "newBranch req' =
       (case branch args of
          None \<Rightarrow> if isRemote info then replaceRemotePrefix argSource else argSource
        | Some b \<Rightarrow> b)"
      "CreateRequest.name req' = argName" "sourceBranch req' = argSource"
      "isRemoteSource req' = isRemote info"
    and run: "runCreate utils svc args =
       \<lparr>trace =
          [ValidateDirectoryName argName, GetRepositoryInfo,
           ListBranches (showRemoteBranches (getConfig svc))] @
          (case truthy (branch args) of None \<Rightarrow> [] | Some b \<Rightarrow> [ValidateBranchName b]) @
          CreateWorktree req' #
          (case createWorktree svc req' of
             None \<Rightarrow> [ConsoleLog (getWorktreePath utils (path repoInfo) argName
                       (worktreePathTemplate (getConfig svc)) (newBranch req') argSource)]
           | Some err \<Rightarrow> []),
        thrown = createWorktree svc req'\<rparr>"
    by blast
  have "req = req'"
    using assms unfolding run by (auto split: option.splits)
  with req' run Reached that show ?thesis by blast
qed


lemma sample_run_remote:
  "runCreate sampleUtils (sampleService DEFAULT_CONFIG)
     \<lparr>command = ''create'', CliArgs.name = Some ''wt'', source = Some ''origin/feat/x'',
      branch = None\<rparr> =
   \<lparr>trace =
      [ValidateDirectoryName ''wt'', GetRepositoryInfo, ListBranches True,
       CreateWorktree
         \<lparr>CreateRequest.name = ''wt'', sourceBranch = ''origin/feat/x'', newBranch = ''feat/x'',
          basePath = ''/home/dev/repo.worktree'', isRemoteSource = True\<rparr>,
       ConsoleLog ''/home/dev/repo.worktree/wt''],
    thrown = None\<rparr>"
  by (simp add: run_defs sample_defs)

lemma sample_run_local:
  "runCreate sampleUtils (sampleService DEFAULT_CONFIG)
     \<lparr>command = ''create'', CliArgs.name = Some ''wt'', source = Some ''main'',
      branch = None\<rparr> =
   \<lparr>trace =
      [ValidateDirectoryName ''wt'', GetRepositoryInfo, ListBranches True,
       CreateWorktree
         \<lparr>CreateRequest.name = ''wt'', sourceBranch = ''main'', newBranch = ''main'',
          basePath = ''/home/dev/repo.worktree'', isRemoteSource = False\<rparr>,
       ConsoleLog ''/home/dev/repo.worktree/wt''],
    thrown = None\<rparr>"
  by (simp add: run_defs sample_defs)

lemma sample_listing:
  "listBranches (sampleService DEFAULT_CONFIG)
     (showRemoteBranches (getConfig (sampleService DEFAULT_CONFIG))) =
   Inr [\<lparr>BranchInfo.name = ''main'', isRemote = False, isCurrent = True\<rparr>,
        \<lparr>BranchInfo.name = ''origin/HEAD'', isRemote = True, isCurrent = False\<rparr>,
        \<lparr>BranchInfo.name = ''origin/main'', isRemote = True, isCurrent = False\<rparr>,
        \<lparr>BranchInfo.name = ''origin/feat/x'', isRemote = True, isCurrent = False\<rparr>]"
  by (simp add: sample_defs)

section \<open>The default of the new branch\<close>

text \<open>
  C1. When the caller omits \<open>--branch\<close>, every request that \<open>runCreate\<close> passes
  to \<open>createWorktree\<close> has the source it was asked for, this source is found
  in the branch listing, and its new branch is: \<open>rest\<close> when the listed branch is
  remote and the source is \<open>remote/rest\<close> with \<open>remote\<close> non-empty and free of
  \<open>/\<close> (so the prefix up to and including the first \<open>/\<close> is stripped); the
  source itself in every other case.
\<close>

theorem C1_default_new_branch:
  assumes "branch args = None"
    and "CreateWorktree req \<in> set (trace (runCreate utils svc args))"
  shows "\<exists>src allBranches info.
           source args = Some src \<and> sourceBranch req = src \<and>
           listBranches svc (showRemoteBranches (getConfig svc)) = Inr allBranches \<and>
           find (\<lambda>b. BranchInfo.name b = src) allBranches = Some info \<and>
           (\<forall>remote rest.
              isRemote info \<and> src = remote @ CHR ''/'' # rest \<and> remote \<noteq> [] \<and>
              CHR ''/'' \<notin> set remote \<longrightarrow> newBranch req = rest) \<and>
           (\<not> (isRemote info \<and>
                (\<exists>remote rest. src = remote @ CHR ''/'' # rest \<and> remote \<noteq> [] \<and>
                   CHR ''/'' \<notin> set remote)) \<longrightarrow> newBranch req = src)"
  using assms(2)
proof (rule runCreate_CreateWorktreeD)
  fix src allBranches info
  assume src: "truthy (source args) = Some src" "sourceBranch req = src"
    and listing: "listBranches svc (showRemoteBranches (getConfig svc)) = Inr allBranches"
    and info: "find (\<lambda>b. BranchInfo.name b = src) allBranches = Some info"
    and nb: "newBranch req =
       (case branch args of
          None \<Rightarrow> if isRemote info then replaceRemotePrefix src else src
        | Some b \<Rightarrow> b)"
  from nb assms(1) have nb': "newBranch req = (if isRemote info then replaceRemotePrefix src else src)"
    by simp
  have "source args = Some src" using src(1) by (simp add: truthy_Some_iff)
  moreover have "\<forall>remote rest.
              isRemote info \<and> src = remote @ CHR ''/'' # rest \<and> remote \<noteq> [] \<and>
              CHR ''/'' \<notin> set remote \<longrightarrow> newBranch req = rest"
    using nb' by (auto simp: replaceRemotePrefix_form)
  moreover have "\<not> (isRemote info \<and>
                (\<exists>remote rest. src = remote @ CHR ''/'' # rest \<and> remote \<noteq> [] \<and>
                   CHR ''/'' \<notin> set remote)) \<longrightarrow> newBranch req = src"
    using nb' replaceRemotePrefix_other[of src] by auto
  ultimately show ?thesis using src(2) listing info by blast
qed

text \<open>
  The two runs the specification names: source \<open>origin/feat/x\<close>, a remote
  branch, gives the new branch \<open>feat/x\<close>; the local source \<open>main\<close> gives
  \<open>main\<close>.
\<close>

theorem C1_default_new_branch_witness:
  "branch \<lparr>command = ''create'', CliArgs.name = Some ''wt'', source = Some ''origin/feat/x'',
           branch = None\<rparr> = None \<and>
   CreateWorktree
     \<lparr>CreateRequest.name = ''wt'', sourceBranch = ''origin/feat/x'', newBranch = ''feat/x'',
      basePath = ''/home/dev/repo.worktree'', isRemoteSource = True\<rparr>
   \<in> set (trace (runCreate sampleUtils (sampleService DEFAULT_CONFIG)
         \<lparr>command = ''create'', CliArgs.name = Some ''wt'', source = Some ''origin/feat/x'',
          branch = None\<rparr>)) \<and>
   CreateWorktree
     \<lparr>CreateRequest.name = ''wt'', sourceBranch = ''main'', newBranch = ''main'',
      basePath = ''/home/dev/repo.worktree'', isRemoteSource = False\<rparr>
   \<in> set (trace (runCreate sampleUtils (sampleService DEFAULT_CONFIG)
         \<lparr>command = ''create'', CliArgs.name = Some ''wt'', source = Some ''main'',
          branch = None\<rparr>))"
proof -
  let ?remoteArgs = "\<lparr>command = ''create'', CliArgs.name = Some ''wt'',
                      source = Some ''origin/feat/x'', branch = None\<rparr>"
  let ?localArgs = "\<lparr>command = ''create'', CliArgs.name = Some ''wt'',
                     source = Some ''main'', branch = None\<rparr>"
  let ?svc = "sampleService DEFAULT_CONFIG"
  have omittedR: "branch ?remoteArgs = None" and omittedL: "branch ?localArgs = None"
    by simp_all
  obtain reqR where
    reqR: "CreateWorktree reqR \<in> set (trace (runCreate sampleUtils ?svc ?remoteArgs))"
      "CreateRequest.name reqR = ''wt''" "basePath reqR = ''/home/dev/repo.worktree''"
      "isRemoteSource reqR"
    unfolding sample_run_remote by simp
  from C1_default_new_branch[OF omittedR reqR(1)] obtain src allBranches info where
    r: "source ?remoteArgs = Some src" "sourceBranch reqR = src"
      "listBranches ?svc (showRemoteBranches (getConfig ?svc)) = Inr allBranches"
      "find (\<lambda>b. BranchInfo.name b = src) allBranches = Some info"
      "\<forall>remote rest. isRemote info \<and> src = remote @ CHR ''/'' # rest \<and> remote \<noteq> [] \<and>
              CHR ''/'' \<notin> set remote \<longrightarrow> newBranch reqR = rest"
    by blast
  from r(1) have srcR: "src = ''origin/feat/x''" by simp
  from r(3,4) have "isRemote info" unfolding srcR sample_listing by auto
  moreover have "src = ''origin'' @ CHR ''/'' # ''feat/x''" using srcR by simp
  ultimately have "newBranch reqR = ''feat/x''" using r(5) by fastforce
  with reqR r(2) srcR have eqR: "reqR =
     \<lparr>CreateRequest.name = ''wt'', sourceBranch = ''origin/feat/x'', newBranch = ''feat/x'',
      basePath = ''/home/dev/repo.worktree'', isRemoteSource = True\<rparr>"
    by auto
  obtain reqL where
    reqL: "CreateWorktree reqL \<in> set (trace (runCreate sampleUtils ?svc ?localArgs))"
      "CreateRequest.name reqL = ''wt''" "basePath reqL = ''/home/dev/repo.worktree''"
      "\<not> isRemoteSource reqL"
    unfolding sample_run_local by simp
  from C1_default_new_branch[OF omittedL reqL(1)] obtain src' allBranches' info' where
    l: "source ?localArgs = Some src'" "sourceBranch reqL = src'"
      "listBranches ?svc (showRemoteBranches (getConfig ?svc)) = Inr allBranches'"
      "find (\<lambda>b. BranchInfo.name b = src') allBranches' = Some info'"
      "\<not> (isRemote info' \<and>
                (\<exists>remote rest. src' = remote @ CHR ''/'' # rest \<and> remote \<noteq> [] \<and>
                   CHR ''/'' \<notin> set remote)) \<longrightarrow> newBranch reqL = src'"
    by blast
  from l(1) have srcL: "src' = ''main''" by simp
  from l(3,4) have "\<not> isRemote info'" unfolding srcL sample_listing by auto
  with l(5) have "newBranch reqL = src'" by simp
  with reqL l(2) srcL have eqL: "reqL =
     \<lparr>CreateRequest.name = ''wt'', sourceBranch = ''main'', newBranch = ''main'',
      basePath = ''/home/dev/repo.worktree'', isRemoteSource = False\<rparr>"
    by auto
  from reqR(1) reqL(1) show ?thesis unfolding eqR eqL by simp
qed

section \<open>A source branch that is not listed\<close>

lemma find_Some_name:
  "find (\<lambda>b. BranchInfo.name b = src) xs = Some info \<Longrightarrow> src \<in> BranchInfo.name ` set xs"
  by (auto simp: find_Some_iff)

lemma sample_listBranches:
  "listBranches (sampleService config) includeRemote =
     Inr (listBranches_spec sampleRepository includeRemote)"
  by (simp add: sampleService_def)

lemma sample_shown: "showRemoteBranches (getConfig (sampleService DEFAULT_CONFIG)) = True"
  by (simp add: sample_defs)

lemma sample_names:
  "BranchInfo.name ` set (listBranches_spec sampleRepository True) =
   {''main'', ''origin/HEAD'', ''origin/main'', ''origin/feat/x''}"
  by (simp add: sample_defs)

lemma runCreate_lookup_not_found:
  assumes "truthy (CliArgs.name args) = Some argName"
    and "truthy (source args) = Some src"
    and "truthy (validateDirectoryName utils argName) = None"
    and "getRepositoryInfo svc = Inr repoInfo"
    and "listBranches svc (showRemoteBranches (getConfig svc)) = Inr allBranches"
    and "src \<notin> BranchInfo.name ` set allBranches"
  shows "runCreate utils svc args =
           \<lparr>trace = [ValidateDirectoryName argName, GetRepositoryInfo,
                     ListBranches (showRemoteBranches (getConfig svc))],
            thrown = Some (sourceNotFoundMessage src)\<rparr>"
proof -
  from assms(6) have "find (\<lambda>b. BranchInfo.name b = src) allBranches = None"
    by (auto simp: find_None_iff)
  with assms(1-5) show ?thesis unfolding runCreate_def Let_def by simp
qed

lemma runCreate_unlisted_rejected:
  assumes "source args = Some src"
    and "listBranches svc (showRemoteBranches (getConfig svc)) = Inr allBranches"
    and "src \<notin> BranchInfo.name ` set allBranches"
  shows "thrown (runCreate utils svc args) \<noteq> None \<and>
         (\<forall>req. CreateWorktree req \<notin> set (trace (runCreate utils svc args)))"
proof (cases utils svc args rule: runCreate_outcomes)
  case (BadBranch argName argSource listed info b branchError)
  then show ?thesis by simp
next
  case (Reached argName argSource repoInfo listed info)
  from Reached(2) assms(1) have "argSource = src" by (simp add: truthy_Some_iff)
  moreover from Reached(5) assms(2) have "listed = allBranches" by simp
  ultimately have False using Reached(6) assms(3) by (auto dest: find_Some_name)
  then show ?thesis ..
qed simp_all

lemma runCreate_unlisted_thrown:
  assumes "source args = Some src"
    and "listBranches svc (showRemoteBranches (getConfig svc)) = Inr allBranches"
    and "src \<notin> BranchInfo.name ` set allBranches"
  shows "thrown (runCreate utils svc args) =
           Some (case truthy (CliArgs.name args) of
                   None \<Rightarrow> ''Missing required argument: --name (-n)''
                 | Some argName \<Rightarrow>
                     if src = [] then ''Missing required argument: --source (-s)''
                     else (case truthy (validateDirectoryName utils argName) of
                             Some dirError \<Rightarrow> ''Invalid directory name: '' @ dirError
                           | None \<Rightarrow>
                               (case getRepositoryInfo svc of
                                  Inl err \<Rightarrow> err
                                | Inr repoInfo \<Rightarrow> sourceNotFoundMessage src)))"
proof (cases "truthy (CliArgs.name args)")
  case None
  then show ?thesis unfolding runCreate_def by simp
next
  case n: (Some argName)
  show ?thesis
  proof (cases "src = []")
    case True
    with assms(1) have "truthy (source args) = None" by (simp add: truthy_def)
    with n True show ?thesis unfolding runCreate_def by simp
  next
    case False
    with assms(1) have s: "truthy (source args) = Some src" by (simp add: truthy_def)
    show ?thesis
    proof (cases "truthy (validateDirectoryName utils argName)")
      case (Some dirError)
      with n s False show ?thesis unfolding runCreate_def by simp
    next
      case d: None
      show ?thesis
      proof (cases "getRepositoryInfo svc")
        case (Inl err)
        with n s d False show ?thesis unfolding runCreate_def by simp
      next
        case (Inr repoInfo)
        from runCreate_lookup_not_found[OF n s d Inr assms(2,3)]
        have "thrown (runCreate utils svc args) = Some (sourceNotFoundMessage src)" by simp
        with n d Inr False show ?thesis by simp
      qed
    qed
  qed
qed

text \<open>
  C2, as amended. When the source of a create request is not the name of any
  branch in the listing that \<open>listBranches\<close> returns for the configured
  \<open>showRemoteBranches\<close>, \<open>runCreate\<close> never calls \<open>createWorktree\<close> and
  rejects, with the error of the first check of \<open>runCreate\<close> that fails:
  \<open>Missing required argument: --name (-n)\<close> when the name is absent or empty;
  else \<open>Missing required argument: --source (-s)\<close> when the source is empty;
  else \<open>Invalid directory name: \<close> followed by the error of
  \<open>validateDirectoryName\<close>, when it returns one (not empty) for the name; else
  the error of \<open>getRepositoryInfo\<close>, when it rejects; else the not-found error
  \<open>Source branch '<source>' does not exist\<close>.
\<close>

theorem C2_source_not_found:
  assumes "source args = Some src"
    and "listBranches svc (showRemoteBranches (getConfig svc)) = Inr allBranches"
    and "src \<notin> BranchInfo.name ` set allBranches"
  shows "(\<forall>req. CreateWorktree req \<notin> set (trace (runCreate utils svc args))) \<and>
         thrown (runCreate utils svc args) =
           Some (case truthy (CliArgs.name args) of
                   None \<Rightarrow> ''Missing required argument: --name (-n)''
                 | Some argName \<Rightarrow>
                     if src = [] then ''Missing required argument: --source (-s)''
                     else (case truthy (validateDirectoryName utils argName) of
                             Some dirError \<Rightarrow> ''Invalid directory name: '' @ dirError
                           | None \<Rightarrow>
                               (case getRepositoryInfo svc of
                                  Inl err \<Rightarrow> err
                                | Inr repoInfo \<Rightarrow> sourceNotFoundMessage src)))"
proof
  from runCreate_unlisted_rejected[OF assms]
  show "\<forall>req. CreateWorktree req \<notin> set (trace (runCreate utils svc args))"
    by simp
next
  from assms show "thrown (runCreate utils svc args) =
           Some (case truthy (CliArgs.name args) of
                   None \<Rightarrow> ''Missing required argument: --name (-n)''
                 | Some argName \<Rightarrow>
                     if src = [] then ''Missing required argument: --source (-s)''
                     else (case truthy (validateDirectoryName utils argName) of
                             Some dirError \<Rightarrow> ''Invalid directory name: '' @ dirError
                           | None \<Rightarrow>
                               (case getRepositoryInfo svc of
                                  Inl err \<Rightarrow> err
                                | Inr repoInfo \<Rightarrow> sourceNotFoundMessage src)))"
    by (rule runCreate_unlisted_thrown)
qed

text \<open>
  The run of the repository's test of a nonexistent source branch: name
  \<open>test-wt\<close>, source \<open>nonexistent-branch-xyz\<close>.
\<close>

theorem C2_source_not_found_witness:
  "source \<lparr>command = ''create'', CliArgs.name = Some ''test-wt'',
           source = Some ''nonexistent-branch-xyz'', branch = None\<rparr> =
     Some ''nonexistent-branch-xyz'' \<and>
   listBranches (sampleService DEFAULT_CONFIG)
     (showRemoteBranches (getConfig (sampleService DEFAULT_CONFIG))) =
     Inr (listBranches_spec sampleRepository True) \<and>
   ''nonexistent-branch-xyz'' \<notin>
     BranchInfo.name ` set (listBranches_spec sampleRepository True) \<and>
   truthy (validateDirectoryName sampleUtils ''test-wt'') = None \<and>
   thrown (runCreate sampleUtils (sampleService DEFAULT_CONFIG)
     \<lparr>command = ''create'', CliArgs.name = Some ''test-wt'',
      source = Some ''nonexistent-branch-xyz'', branch = None\<rparr>) =
     Some (sourceNotFoundMessage ''nonexistent-branch-xyz'')"
proof -
  let ?args = "\<lparr>command = ''create'', CliArgs.name = Some ''test-wt'',
                source = Some ''nonexistent-branch-xyz'', branch = None\<rparr>"
  have h1: "source ?args = Some ''nonexistent-branch-xyz''" by simp
  have h2: "listBranches (sampleService DEFAULT_CONFIG)
     (showRemoteBranches (getConfig (sampleService DEFAULT_CONFIG))) =
     Inr (listBranches_spec sampleRepository True)"
    unfolding sample_listBranches sample_shown by simp
  have h3: "''nonexistent-branch-xyz'' \<notin>
     BranchInfo.name ` set (listBranches_spec sampleRepository True)"
    unfolding sample_names by simp
  have n: "truthy (Some ''test-wt'') = Some ''test-wt''" by (simp add: truthy_def)
  have d: "truthy (validateDirectoryName sampleUtils ''test-wt'') = None"
    by (simp add: truthy_def sample_defs)
  have r: "getRepositoryInfo (sampleService DEFAULT_CONFIG) = Inr \<lparr>path = ''/home/dev/repo''\<rparr>"
    by (simp add: sampleService_def)
  from C2_source_not_found[OF h1 h2 h3, of sampleUtils]
  have "thrown (runCreate sampleUtils (sampleService DEFAULT_CONFIG) ?args) =
     Some (sourceNotFoundMessage ''nonexistent-branch-xyz'')"
    by (simp add: n d r)
  with h1 h2 h3 d show ?thesis by blast
qed

text \<open>
  C2 as it is stated, for every create request, fails: with the name
  \<open>.hidden-dir\<close>, which the repository's test of \<open>runCreate\<close> has rejected as
  an invalid directory name, and a source that is not listed, the error is the
  one of the directory name, raised before the branches are listed.
\<close>

theorem C2_counterexample:
  "listBranches (sampleService DEFAULT_CONFIG)
     (showRemoteBranches (getConfig (sampleService DEFAULT_CONFIG))) =
     Inr (listBranches_spec sampleRepository True) \<and>
   ''nonexistent-branch-xyz'' \<notin>
     BranchInfo.name ` set (listBranches_spec sampleRepository True) \<and>
   trace (runCreate sampleUtils (sampleService DEFAULT_CONFIG)
     \<lparr>command = ''create'', CliArgs.name = Some ''.hidden-dir'',
      source = Some ''nonexistent-branch-xyz'', branch = None\<rparr>) =
     [ValidateDirectoryName ''.hidden-dir''] \<and>
   map_option (take 24) (thrown (runCreate sampleUtils (sampleService DEFAULT_CONFIG)
     \<lparr>command = ''create'', CliArgs.name = Some ''.hidden-dir'',
      source = Some ''nonexistent-branch-xyz'', branch = None\<rparr>)) =
     Some ''Invalid directory name: '' \<and>
   thrown (runCreate sampleUtils (sampleService DEFAULT_CONFIG)
     \<lparr>command = ''create'', CliArgs.name = Some ''.hidden-dir'',
      source = Some ''nonexistent-branch-xyz'', branch = None\<rparr>) \<noteq>
     Some (sourceNotFoundMessage ''nonexistent-branch-xyz'')"
proof -
  have "runCreate sampleUtils (sampleService DEFAULT_CONFIG)
     \<lparr>command = ''create'', CliArgs.name = Some ''.hidden-dir'',
      source = Some ''nonexistent-branch-xyz'', branch = None\<rparr> =
     \<lparr>trace = [ValidateDirectoryName ''.hidden-dir''],
      thrown = Some ''Invalid directory name: Directory name cannot start with a dot''\<rparr>"
    by (simp add: run_defs sample_defs)
  then show ?thesis
    unfolding sample_names sample_listBranches sample_shown
    by (simp add: sourceNotFoundMessage_def)
qed

section \<open>The new branch of the request\<close>

text \<open>
  C3. The new branch of a request passed to \<open>createWorktree\<close> should never be
  empty. With \<open>branch: ""\<close> it is: \<open>!args.branch\<close> and \<open>if (args.branch)\<close> take
  the empty string for an omitted branch, so that it is neither defaulted away
  nor validated, while \<open>args.branch ?? defaultBranch\<close> keeps it, the empty
  string being neither \<open>null\<close> nor \<open>undefined\<close>. The run below reaches
  \<open>createWorktree\<close> with the new branch \<open>""\<close> and resolves.
\<close>

theorem C3_empty_branch_request:
  "runCreate sampleUtils (sampleService DEFAULT_CONFIG)
     \<lparr>command = ''create'', CliArgs.name = Some ''wt'', source = Some ''main'',
      branch = Some ''''\<rparr> =
   \<lparr>trace =
      [ValidateDirectoryName ''wt'', GetRepositoryInfo, ListBranches True,
       CreateWorktree
         \<lparr>CreateRequest.name = ''wt'', sourceBranch = ''main'', newBranch = '''',
          basePath = ''/home/dev/repo.worktree'', isRemoteSource = False\<rparr>,
       ConsoleLog ''/home/dev/repo.worktree/wt''],
    thrown = None\<rparr>"
  by (simp add: run_defs sample_defs)

section \<open>Validation comes before the mutation\<close>

lemma sample_run_explicit:
  "runCreate sampleUtils (sampleService DEFAULT_CONFIG)
     \<lparr>command = ''create'', CliArgs.name = Some ''wt'', source = Some ''main'',
      branch = Some ''feat/x-1''\<rparr> =
   \<lparr>trace =
      [ValidateDirectoryName ''wt'', GetRepositoryInfo, ListBranches True,
       ValidateBranchName ''feat/x-1'',
       CreateWorktree
         \<lparr>CreateRequest.name = ''wt'', sourceBranch = ''main'', newBranch = ''feat/x-1'',
          basePath = ''/home/dev/repo.worktree'', isRemoteSource = False\<rparr>,
       ConsoleLog ''/home/dev/repo.worktree/wt''],
    thrown = None\<rparr>"
  by (simp add: run_defs sample_defs)

lemma sample_validators:
  "truthy (validateDirectoryName sampleUtils ''.hidden-dir'') \<noteq> None"
  "truthy (validateDirectoryName sampleUtils ''dir/with/slash'') \<noteq> None"
  "truthy (validateDirectoryName sampleUtils ''wt'') = None"
  "truthy (validateBranchName sampleUtils ''branch with spaces'') \<noteq> None"
  "truthy (validateBranchName sampleUtils ''feat/x-1'') = None"
  by (simp_all add: truthy_def sample_defs)

text \<open>
  C4, as amended. In every execution of \<open>runCreate\<close>, the validation of the
  directory name and, when an explicit (non-empty) branch argument is supplied,
  the validation of that branch complete successfully strictly before
  \<open>createWorktree\<close> is called: a directory name that \<open>validateDirectoryName\<close>
  rejects, and an explicit (non-empty) branch that \<open>validateBranchName\<close>
  rejects, each make \<open>runCreate\<close> reject without any call of
  \<open>createWorktree\<close>; and when \<open>createWorktree\<close> is called, the trace up to the
  call holds the validation of the directory name and, for an explicit
  (non-empty) branch, the validation of the branch, both passed; the call is
  the only one, and no validation comes after it.
\<close>

theorem C4_validation_before_mutation:
  "(\<forall>n. CliArgs.name args = Some n \<and> truthy (validateDirectoryName utils n) \<noteq> None \<longrightarrow>
        thrown (runCreate utils svc args) \<noteq> None \<and>
        (\<forall>req. CreateWorktree req \<notin> set (trace (runCreate utils svc args)))) \<and>
   (\<forall>b. branch args = Some b \<and> b \<noteq> [] \<and> truthy (validateBranchName utils b) \<noteq> None \<longrightarrow>
        thrown (runCreate utils svc args) \<noteq> None \<and>
        (\<forall>req. CreateWorktree req \<notin> set (trace (runCreate utils svc args)))) \<and>
   (\<forall>req. CreateWorktree req \<in> set (trace (runCreate utils svc args)) \<longrightarrow>
      (\<exists>pre post n.
         trace (runCreate utils svc args) = pre @ CreateWorktree req # post \<and>
         CliArgs.name args = Some n \<and> ValidateDirectoryName n \<in> set pre \<and>
         truthy (validateDirectoryName utils n) = None \<and>
         (\<forall>b. branch args = Some b \<and> b \<noteq> [] \<longrightarrow>
            ValidateBranchName b \<in> set pre \<and> truthy (validateBranchName utils b) = None) \<and>
         (\<forall>req'. CreateWorktree req' \<notin> set pre \<and> CreateWorktree req' \<notin> set post) \<and>
         (\<forall>x. ValidateDirectoryName x \<notin> set post \<and> ValidateBranchName x \<notin> set post)))"
  (is "?dir \<and> ?branch \<and> ?order")
proof (intro conjI)
  show ?dir
  proof (cases utils svc args rule: runCreate_outcomes)
    case (NotFound argName argSource allBranches)
    then show ?thesis by (auto simp: truthy_Some_iff)
  next
    case (BadBranch argName argSource allBranches info b branchError)
    then show ?thesis by (auto simp: truthy_Some_iff)
  next
    case (Reached argName argSource repoInfo allBranches info)
    from Reached(1) have n: "CliArgs.name args = Some argName" by (simp add: truthy_Some_iff)
    show ?thesis using Reached(3) unfolding n by simp
  qed simp_all
  show ?branch
  proof (cases utils svc args rule: runCreate_outcomes)
    case (Reached argName argSource repoInfo allBranches info)
    have "\<And>b. branch args = Some b \<Longrightarrow> b \<noteq> [] \<Longrightarrow> truthy (validateBranchName utils b) = None"
      using Reached(7) by (simp add: truthy_Some_iff)
    then show ?thesis by auto
  qed simp_all
  show ?order
  proof (intro allI impI)
    fix req
    assume reached: "CreateWorktree req \<in> set (trace (runCreate utils svc args))"
    show "\<exists>pre post n.
         trace (runCreate utils svc args) = pre @ CreateWorktree req # post \<and>
         CliArgs.name args = Some n \<and> ValidateDirectoryName n \<in> set pre \<and>
         truthy (validateDirectoryName utils n) = None \<and>
         (\<forall>b. branch args = Some b \<and> b \<noteq> [] \<longrightarrow>
            ValidateBranchName b \<in> set pre \<and> truthy (validateBranchName utils b) = None) \<and>
         (\<forall>req'. CreateWorktree req' \<notin> set pre \<and> CreateWorktree req' \<notin> set post) \<and>
         (\<forall>x. ValidateDirectoryName x \<notin> set post \<and> ValidateBranchName x \<notin> set post)"
    using reached
    proof (rule runCreate_CreateWorktreeD)
    fix argName argSource repoInfo info
    assume n: "truthy (CliArgs.name args) = Some argName"
      and d: "truthy (validateDirectoryName utils argName) = None"
      and b: "\<And>b. truthy (branch args) = Some b \<Longrightarrow> truthy (validateBranchName utils b) = None"
      and run: "runCreate utils svc args =
       \<lparr>trace =
          [ValidateDirectoryName argName, GetRepositoryInfo,
           ListBranches (showRemoteBranches (getConfig svc))] @
          (case truthy (branch args) of None \<Rightarrow> [] | Some b \<Rightarrow> [ValidateBranchName b]) @
          CreateWorktree req #
          (case createWorktree svc req of
             None \<Rightarrow> [ConsoleLog (getWorktreePath utils (path repoInfo) argName
                       (worktreePathTemplate (getConfig svc)) (newBranch req) argSource)]
           | Some err \<Rightarrow> []),
        thrown = createWorktree svc req\<rparr>"
    let ?pre = "[ValidateDirectoryName argName, GetRepositoryInfo,
           ListBranches (showRemoteBranches (getConfig svc))] @
          (case truthy (branch args) of None \<Rightarrow> [] | Some b \<Rightarrow> [ValidateBranchName b])"
    let ?post = "(case createWorktree svc req of
             None \<Rightarrow> [ConsoleLog (getWorktreePath utils (path repoInfo) argName
                       (worktreePathTemplate (getConfig svc)) (newBranch req) argSource)]
           | Some err \<Rightarrow> [])"
    have t: "trace (runCreate utils svc args) = ?pre @ CreateWorktree req # ?post"
      unfolding run by simp
    have nm: "CliArgs.name args = Some argName" using n by (simp add: truthy_Some_iff)
    have pre_dir: "ValidateDirectoryName argName \<in> set ?pre" by simp
    have pre_branch: "\<forall>b. branch args = Some b \<and> b \<noteq> [] \<longrightarrow>
            ValidateBranchName b \<in> set ?pre \<and> truthy (validateBranchName utils b) = None"
    proof (intro allI impI)
      fix b assume "branch args = Some b \<and> b \<noteq> []"
      then have tb: "truthy (branch args) = Some b" by (simp add: truthy_Some_iff)
      from b[OF tb] tb show "ValidateBranchName b \<in> set ?pre \<and>
         truthy (validateBranchName utils b) = None" by simp
    qed
    have no_cw: "\<forall>req'. CreateWorktree req' \<notin> set ?pre \<and> CreateWorktree req' \<notin> set ?post"
      by (auto split: option.splits)
    have no_val: "\<forall>x. ValidateDirectoryName x \<notin> set ?post \<and> ValidateBranchName x \<notin> set ?post"
      by (auto split: option.splits)
    from t nm pre_dir d pre_branch no_cw no_val
    show ?thesis
      by blast
    qed
  qed
qed

text \<open>
  Three runs: a directory name starting with a dot and a branch with spaces
  are rejected; a valid request with an explicit branch reaches
  \<open>createWorktree\<close> after both validations.
\<close>

theorem C4_validation_before_mutation_witness:
  "truthy (validateDirectoryName sampleUtils ''.hidden-dir'') \<noteq> None \<and>
   thrown (runCreate sampleUtils (sampleService DEFAULT_CONFIG)
     \<lparr>command = ''create'', CliArgs.name = Some ''.hidden-dir'', source = Some ''main'',
      branch = None\<rparr>) \<noteq> None \<and>
   truthy (validateBranchName sampleUtils ''branch with spaces'') \<noteq> None \<and>
   thrown (runCreate sampleUtils (sampleService DEFAULT_CONFIG)
     \<lparr>command = ''create'', CliArgs.name = Some ''test-wt'', source = Some ''main'',
      branch = Some ''branch with spaces''\<rparr>) \<noteq> None \<and>
   CreateWorktree
     \<lparr>CreateRequest.name = ''wt'', sourceBranch = ''main'', newBranch = ''feat/x-1'',
      basePath = ''/home/dev/repo.worktree'', isRemoteSource = False\<rparr>
   \<in> set (trace (runCreate sampleUtils (sampleService DEFAULT_CONFIG)
     \<lparr>command = ''create'', CliArgs.name = Some ''wt'', source = Some ''main'',
      branch = Some ''feat/x-1''\<rparr>)) \<and>
   (\<exists>pre post.
      trace (runCreate sampleUtils (sampleService DEFAULT_CONFIG)
        \<lparr>command = ''create'', CliArgs.name = Some ''wt'', source = Some ''main'',
         branch = Some ''feat/x-1''\<rparr>) =
      pre @ CreateWorktree
        \<lparr>CreateRequest.name = ''wt'', sourceBranch = ''main'', newBranch = ''feat/x-1'',
         basePath = ''/home/dev/repo.worktree'', isRemoteSource = False\<rparr> # post \<and>
      ValidateDirectoryName ''wt'' \<in> set pre \<and> ValidateBranchName ''feat/x-1'' \<in> set pre)"
proof -
  let ?svc = "sampleService DEFAULT_CONFIG"
  let ?hidden = "\<lparr>command = ''create'', CliArgs.name = Some ''.hidden-dir'',
                  source = Some ''main'', branch = None\<rparr>"
  let ?spaces = "\<lparr>command = ''create'', CliArgs.name = Some ''test-wt'', source = Some ''main'',
                  branch = Some ''branch with spaces''\<rparr>"
  let ?ok = "\<lparr>command = ''create'', CliArgs.name = Some ''wt'', source = Some ''main'',
              branch = Some ''feat/x-1''\<rparr>"
  let ?req = "\<lparr>CreateRequest.name = ''wt'', sourceBranch = ''main'', newBranch = ''feat/x-1'',
               basePath = ''/home/dev/repo.worktree'', isRemoteSource = False\<rparr>"
  have a: "thrown (runCreate sampleUtils ?svc ?hidden) \<noteq> None"
    using C4_validation_before_mutation[of ?hidden sampleUtils ?svc] sample_validators(1)
    by simp
  have b: "thrown (runCreate sampleUtils ?svc ?spaces) \<noteq> None"
    using C4_validation_before_mutation[of ?spaces sampleUtils ?svc] sample_validators(4)
    by simp
  have c: "CreateWorktree ?req \<in> set (trace (runCreate sampleUtils ?svc ?ok))"
    unfolding sample_run_explicit by simp
  from C4_validation_before_mutation[of ?ok sampleUtils ?svc] c
  obtain pre post n where
    o: "trace (runCreate sampleUtils ?svc ?ok) = pre @ CreateWorktree ?req # post"
      "CliArgs.name ?ok = Some n" "ValidateDirectoryName n \<in> set pre"
      "\<forall>b. branch ?ok = Some b \<and> b \<noteq> [] \<longrightarrow> ValidateBranchName b \<in> set pre \<and>
           truthy (validateBranchName sampleUtils b) = None"
    by blast
  from o(2,3) have "ValidateDirectoryName ''wt'' \<in> set pre" by simp
  moreover from o(4) have "ValidateBranchName ''feat/x-1'' \<in> set pre" by simp
  ultimately show ?thesis using a b c o(1) sample_validators(1,4) by blast
qed

text \<open>
  C4 as it is stated, with the validation of the branch name in every
  execution, fails: in the run of the repository's test of the default branch
  (name \<open>test-default-branch\<close>, source \<open>main\<close>, no \<open>--branch\<close>),
  \<open>createWorktree\<close> is called with the new branch \<open>main\<close> and no call of
  \<open>validateBranchName\<close> comes before it.
\<close>

theorem C4_counterexample:
  "branch \<lparr>command = ''create'', CliArgs.name = Some ''test-default-branch'',
           source = Some ''main'', branch = None\<rparr> = None \<and>
   trace (runCreate sampleUtils (sampleService DEFAULT_CONFIG)
     \<lparr>command = ''create'', CliArgs.name = Some ''test-default-branch'',
      source = Some ''main'', branch = None\<rparr>) =
     [ValidateDirectoryName ''test-default-branch'', GetRepositoryInfo, ListBranches True,
      CreateWorktree
        \<lparr>CreateRequest.name = ''test-default-branch'', sourceBranch = ''main'',
         newBranch = ''main'', basePath = ''/home/dev/repo.worktree'',
         isRemoteSource = False\<rparr>,
      ConsoleLog ''/home/dev/repo.worktree/test-default-branch''] \<and>
   ValidateBranchName ''main'' \<notin>
     set (trace (runCreate sampleUtils (sampleService DEFAULT_CONFIG)
       \<lparr>command = ''create'', CliArgs.name = Some ''test-default-branch'',
        source = Some ''main'', branch = None\<rparr>))"
proof -
  have "runCreate sampleUtils (sampleService DEFAULT_CONFIG)
     \<lparr>command = ''create'', CliArgs.name = Some ''test-default-branch'',
      source = Some ''main'', branch = None\<rparr> =
     \<lparr>trace =
        [ValidateDirectoryName ''test-default-branch'', GetRepositoryInfo, ListBranches True,
         CreateWorktree
           \<lparr>CreateRequest.name = ''test-default-branch'', sourceBranch = ''main'',
            newBranch = ''main'', basePath = ''/home/dev/repo.worktree'',
            isRemoteSource = False\<rparr>,
         ConsoleLog ''/home/dev/repo.worktree/test-default-branch''],
      thrown = None\<rparr>"
    by (simp add: run_defs sample_defs)
  then show ?thesis by simp
qed

section \<open>The defaulted branch is not validated\<close>

lemma runCreate_branch_omitted:
  assumes "branch args = None"
  shows "runCreate (utils\<lparr>validateBranchName := v\<rparr>) svc args = runCreate utils svc args"
proof -
  have "truthy (branch args) = None" using assms by (simp add: truthy_def)
  then show ?thesis unfolding runCreate_def Let_def using assms
    by (simp split: option.splits sum.splits)
qed

text \<open>
  C9. When \<open>--branch\<close> is omitted, \<open>runCreate\<close> makes no call of
  \<open>validateBranchName\<close>: its trace has none, the whole run is the same
  whatever function \<open>validateBranchName\<close> is, and the new branch of the
  request passed to \<open>createWorktree\<close> is the source, with its remote prefix
  stripped when the source is remote. A call of \<open>validateBranchName\<close> in the
  trace is on the explicit, non-empty branch argument.
\<close>

theorem C9_default_branch_not_validated:
  "(branch args = None \<longrightarrow>
      (\<forall>b. ValidateBranchName b \<notin> set (trace (runCreate utils svc args))) \<and>
      (\<forall>v. runCreate (utils\<lparr>validateBranchName := v\<rparr>) svc args = runCreate utils svc args) \<and>
      (\<forall>req. CreateWorktree req \<in> set (trace (runCreate utils svc args)) \<longrightarrow>
         newBranch req =
           (if isRemoteSource req then replaceRemotePrefix (sourceBranch req)
            else sourceBranch req))) \<and>
   (\<forall>b. ValidateBranchName b \<in> set (trace (runCreate utils svc args)) \<longrightarrow>
      branch args = Some b \<and> b \<noteq> [])"
  (is "(_ \<longrightarrow> ?none \<and> ?indep \<and> ?passed) \<and> ?only")
proof (intro conjI impI)
  assume omitted: "branch args = None"
  then have t: "truthy (branch args) = None" by (simp add: truthy_def)
  show ?none
  proof (cases utils svc args rule: runCreate_outcomes)
    case (BadBranch argName argSource allBranches info b branchError)
    with t show ?thesis by simp
  next
    case (Reached argName argSource repoInfo allBranches info)
    from runCreate_reached[OF Reached] show ?thesis unfolding t by auto
  qed simp_all
  show ?indep using omitted by (simp add: runCreate_branch_omitted)
  show ?passed
  proof (intro allI impI)
    fix req
    assume reached: "CreateWorktree req \<in> set (trace (runCreate utils svc args))"
    show "newBranch req =
           (if isRemoteSource req then replaceRemotePrefix (sourceBranch req)
            else sourceBranch req)"
      using reached
    proof (rule runCreate_CreateWorktreeD)
      fix argSource info
      assume "newBranch req =
       (case branch args of
          None \<Rightarrow> if isRemote info then replaceRemotePrefix argSource else argSource
        | Some b \<Rightarrow> b)"
        "sourceBranch req = argSource" "isRemoteSource req = isRemote info"
      with omitted show ?thesis by simp
    qed
  qed
next
  show ?only
  proof (cases utils svc args rule: runCreate_outcomes)
    case (BadBranch argName argSource allBranches info b branchError)
    then show ?thesis by (auto simp: truthy_Some_iff)
  next
    case (Reached argName argSource repoInfo allBranches info)
    from runCreate_reached[OF Reached] show ?thesis
      by (auto split: option.splits simp: truthy_Some_iff)
  qed simp_all
qed

text \<open>
  With a \<open>validateBranchName\<close> that rejects every name, the request with
  \<open>--branch\<close> omitted still reaches \<open>createWorktree\<close> with the branch
  \<open>feat/x\<close>; with an explicit branch the validator is called on it.
\<close>

theorem C9_default_branch_not_validated_witness:
  "branch \<lparr>command = ''create'', CliArgs.name = Some ''wt'', source = Some ''origin/feat/x'',
           branch = None\<rparr> = None \<and>
   validateBranchName (sampleUtils\<lparr>validateBranchName := (\<lambda>b. Some ''rejected'')\<rparr>) ''feat/x'' =
     Some ''rejected'' \<and>
   ValidateBranchName ''feat/x'' \<notin>
     set (trace (runCreate (sampleUtils\<lparr>validateBranchName := (\<lambda>b. Some ''rejected'')\<rparr>)
       (sampleService DEFAULT_CONFIG)
       \<lparr>command = ''create'', CliArgs.name = Some ''wt'', source = Some ''origin/feat/x'',
        branch = None\<rparr>)) \<and>
   CreateWorktree
     \<lparr>CreateRequest.name = ''wt'', sourceBranch = ''origin/feat/x'', newBranch = ''feat/x'',
      basePath = ''/home/dev/repo.worktree'', isRemoteSource = True\<rparr>
   \<in> set (trace (runCreate (sampleUtils\<lparr>validateBranchName := (\<lambda>b. Some ''rejected'')\<rparr>)
       (sampleService DEFAULT_CONFIG)
       \<lparr>command = ''create'', CliArgs.name = Some ''wt'', source = Some ''origin/feat/x'',
        branch = None\<rparr>)) \<and>
   ValidateBranchName ''feat/x-1'' \<in>
     set (trace (runCreate sampleUtils (sampleService DEFAULT_CONFIG)
       \<lparr>command = ''create'', CliArgs.name = Some ''wt'', source = Some ''main'',
        branch = Some ''feat/x-1''\<rparr>)) \<and>
   branch \<lparr>command = ''create'', CliArgs.name = Some ''wt'', source = Some ''main'',
           branch = Some ''feat/x-1''\<rparr> = Some ''feat/x-1''"
proof -
  let ?svc = "sampleService DEFAULT_CONFIG"
  let ?omitted = "\<lparr>command = ''create'', CliArgs.name = Some ''wt'',
                   source = Some ''origin/feat/x'', branch = None\<rparr>"
  let ?explicit = "\<lparr>command = ''create'', CliArgs.name = Some ''wt'', source = Some ''main'',
                    branch = Some ''feat/x-1''\<rparr>"
  let ?strict = "sampleUtils\<lparr>validateBranchName := (\<lambda>b. Some ''rejected'')\<rparr>"
  have h: "branch ?omitted = None" by simp
  from C9_default_branch_not_validated[of ?omitted sampleUtils ?svc] h
  have same: "runCreate ?strict ?svc ?omitted = runCreate sampleUtils ?svc ?omitted"
    by blast
  from C9_default_branch_not_validated[of ?omitted ?strict ?svc] h
  have none: "ValidateBranchName ''feat/x'' \<notin> set (trace (runCreate ?strict ?svc ?omitted))"
    by blast
  have reached: "CreateWorktree
     \<lparr>CreateRequest.name = ''wt'', sourceBranch = ''origin/feat/x'', newBranch = ''feat/x'',
      basePath = ''/home/dev/repo.worktree'', isRemoteSource = True\<rparr>
     \<in> set (trace (runCreate ?strict ?svc ?omitted))"
    unfolding same sample_run_remote by simp
  have ev: "ValidateBranchName ''feat/x-1'' \<in> set (trace (runCreate sampleUtils ?svc ?explicit))"
    unfolding sample_run_explicit by simp
  with C9_default_branch_not_validated[of ?explicit sampleUtils ?svc]
  have "branch ?explicit = Some ''feat/x-1''" by blast
  with h none reached ev show ?thesis by simp
qed

section \<open>The validators\<close>

lemma validateDirectoryName_spec_message:
  "validateDirectoryName_spec dirName = Some msg \<Longrightarrow> msg \<noteq> []"
  by (auto simp: validateDirectoryName_spec_def split: list.splits if_splits)

lemma validateDirectoryName_spec_rejects:
  assumes "dirName = [] \<or> (\<exists>c \<in> set dirName. isPathSeparator c) \<or>
           (\<exists>rest. dirName = CHR ''.'' # rest)"
  shows "validateDirectoryName_spec dirName \<noteq> None"
  using assms
  by (auto simp: validateDirectoryName_spec_def list_ex_iff split: list.splits)

text \<open>
  C5. \<open>validateDirectoryName\<close> returns an error for the empty name, for a name
  with a path separator in it and for a name that begins with a dot, so for
  \<open>.hidden\<close>, \<open>a/b\<close> and the empty name; it returns none for \<open>my-feature\<close>.
  With this validator, \<open>runCreate\<close> rejects a name that it rejects before any
  call of the Git Service: the trace has no \<open>getRepositoryInfo\<close>, no
  \<open>listBranches\<close> and no \<open>createWorktree\<close>.
\<close>

theorem C5_validateDirectoryName:
  "(dirName = [] \<or> (\<exists>c \<in> set dirName. isPathSeparator c) \<or>
      (\<exists>rest. dirName = CHR ''.'' # rest) \<longrightarrow>
      validateDirectoryName_spec dirName \<noteq> None) \<and>
   validateDirectoryName_spec ''.hidden'' \<noteq> None \<and>
   validateDirectoryName_spec ''a/b'' \<noteq> None \<and>
   validateDirectoryName_spec '''' \<noteq> None \<and>
   validateDirectoryName_spec ''my-feature'' = None \<and>
   (CliArgs.name args = Some dirName \<and>
    validateDirectoryName utils = validateDirectoryName_spec \<and>
    validateDirectoryName_spec dirName \<noteq> None \<longrightarrow>
      thrown (runCreate utils svc args) \<noteq> None \<and>
      GetRepositoryInfo \<notin> set (trace (runCreate utils svc args)) \<and>
      (\<forall>b. ListBranches b \<notin> set (trace (runCreate utils svc args))) \<and>
      (\<forall>req. CreateWorktree req \<notin> set (trace (runCreate utils svc args))))"
  (is "?rejects \<and> ?hidden \<and> ?slash \<and> ?empty \<and> ?ok \<and> ?run")
proof (intro conjI)
  show ?rejects using validateDirectoryName_spec_rejects by blast
  show ?hidden by (simp add: validateDirectoryName_spec_def isPathSeparator_def)
  show ?slash by (simp add: validateDirectoryName_spec_def isPathSeparator_def)
  show ?empty by (simp add: validateDirectoryName_spec_def)
  show ?ok by (simp add: validateDirectoryName_spec_def isPathSeparator_def)
  show ?run
  proof (intro impI)
    assume h: "CliArgs.name args = Some dirName \<and>
      validateDirectoryName utils = validateDirectoryName_spec \<and>
      validateDirectoryName_spec dirName \<noteq> None"
    then obtain msg where msg: "validateDirectoryName utils dirName = Some msg" by auto
    with h have "msg \<noteq> []" using validateDirectoryName_spec_message by simp
    with msg have bad: "truthy (validateDirectoryName utils dirName) = Some msg"
      by (simp add: truthy_def)
    show "thrown (runCreate utils svc args) \<noteq> None \<and>
      GetRepositoryInfo \<notin> set (trace (runCreate utils svc args)) \<and>
      (\<forall>b. ListBranches b \<notin> set (trace (runCreate utils svc args))) \<and>
      (\<forall>req. CreateWorktree req \<notin> set (trace (runCreate utils svc args)))"
    proof -
      have contra: False
        if "truthy (CliArgs.name args) = Some argName"
          and "truthy (validateDirectoryName utils argName) = None" for argName
      proof -
        from that(1) h have "argName = dirName" by (simp add: truthy_Some_iff)
        with that(2) bad show False by simp
      qed
      show ?thesis
      proof (cases utils svc args rule: runCreate_outcomes)
        case (NoRepository argName err)
        from contra[OF NoRepository(1,2)] show ?thesis ..
      next
        case (NoListing argName err)
        from contra[OF NoListing(1,2)] show ?thesis ..
      next
        case (NotFound argName argSource allBranches)
        from contra[OF NotFound(1,3)] show ?thesis ..
      next
        case (BadBranch argName argSource allBranches info b branchError)
        from contra[OF BadBranch(1,3)] show ?thesis ..
      next
        case (Reached argName argSource repoInfo allBranches info)
        from contra[OF Reached(1,3)] show ?thesis ..
      qed simp_all
    qed
  qed
qed

text \<open>The name \<open>.hidden-dir\<close> of the repository's test, rejected before any Git call.\<close>

theorem C5_validateDirectoryName_witness:
  "(\<exists>rest. ''.hidden-dir'' = CHR ''.'' # rest) \<and>
   CliArgs.name \<lparr>command = ''create'', CliArgs.name = Some ''.hidden-dir'',
     source = Some ''main'', branch = None\<rparr> = Some ''.hidden-dir'' \<and>
   validateDirectoryName sampleUtils = validateDirectoryName_spec \<and>
   validateDirectoryName_spec ''.hidden-dir'' \<noteq> None \<and>
   thrown (runCreate sampleUtils (sampleService DEFAULT_CONFIG)
     \<lparr>command = ''create'', CliArgs.name = Some ''.hidden-dir'',
      source = Some ''main'', branch = None\<rparr>) \<noteq> None \<and>
   GetRepositoryInfo \<notin> set (trace (runCreate sampleUtils (sampleService DEFAULT_CONFIG)
     \<lparr>command = ''create'', CliArgs.name = Some ''.hidden-dir'',
      source = Some ''main'', branch = None\<rparr>))"
proof -
  let ?args = "\<lparr>command = ''create'', CliArgs.name = Some ''.hidden-dir'',
                source = Some ''main'', branch = None\<rparr>"
  have form: "\<exists>rest. ''.hidden-dir'' = CHR ''.'' # rest" by simp
  have n: "CliArgs.name ?args = Some ''.hidden-dir''" by simp
  have u: "validateDirectoryName sampleUtils = validateDirectoryName_spec"
    by (simp add: sampleUtils_def)
  from C5_validateDirectoryName[of "''.hidden-dir''" ?args sampleUtils "sampleService DEFAULT_CONFIG"]
    form
  have rej: "validateDirectoryName_spec ''.hidden-dir'' \<noteq> None" by blast
  from C5_validateDirectoryName[of "''.hidden-dir''" ?args sampleUtils "sampleService DEFAULT_CONFIG"]
    n u rej
  have "thrown (runCreate sampleUtils (sampleService DEFAULT_CONFIG) ?args) \<noteq> None \<and>
    GetRepositoryInfo \<notin> set (trace (runCreate sampleUtils (sampleService DEFAULT_CONFIG) ?args))"
    by blast
  with form n u rej show ?thesis by blast
qed





section \<open>A failing post-create command\<close>

lemma runPostCreateCommands_commands:
  "map fst (fst (runPostCreateCommands sh cs cwd w)) = cs"
proof (induction cs arbitrary: w)
  case Nil
  show ?case by simp
next
  case (Cons c cs)
  obtain r w' where step: "sh c cwd w = (r, w')" by (cases "sh c cwd w")
  obtain rs w'' where rest: "runPostCreateCommands sh cs cwd w' = (rs, w'')"
    by (cases "runPostCreateCommands sh cs cwd w'")
  from Cons.IH[of w'] rest have "map fst rs = cs" by simp
  then show ?case by (simp add: step rest)
qed

lemma sublist_postCreateWarning: "sublist cmd (postCreateWarning cmd r)"
  unfolding postCreateWarning_def sublist_def by blast

lemma head_postCreateWarning:
  "sublist ''Warning: post-create command failed:'' (postCreateWarning cmd r)"
proof -
  have "postCreateWarning cmd r =
      ''Warning: post-create command failed:'' @
      ('' '' @ cmd @ '': '' @ (case r of SpawnFailed msg \<Rightarrow> msg | Exited res \<Rightarrow> stderr res))"
    unfolding postCreateWarning_def by simp
  then show ?thesis by (metis sublist_append_rightI)
qed

lemma postCreateWarnings_failed:
  assumes "(cmd, r) \<in> set results" "commandFailed r"
  shows "postCreateWarning cmd r \<in> set (postCreateWarnings results)"
  using assms unfolding postCreateWarnings_def by force

lemma createWorktree_spec_created:
  assumes "success (fst (gitWorktreeAdd platform worktreePath request w))"
  shows "\<exists>copyFailures results.
           map fst results = postCreateCmd config \<and>
           result (createWorktree_spec platform config repoRoot worktreePath request w) =
             Inr \<lparr>resultPath = worktreePath,
                  warnings = copyFailures @ postCreateWarnings results\<rparr> \<and>
           steps (createWorktree_spec platform config repoRoot worktreePath request w) =
             GitWorktreeAdd worktreePath # FilesCopied worktreePath #
             map (\<lambda>(cmd, r). CommandRun cmd r) results"
proof -
  obtain added w1 where a: "gitWorktreeAdd platform worktreePath request w = (added, w1)"
    by (cases "gitWorktreeAdd platform worktreePath request w")
  with assms have ok: "success added" by simp
  obtain copyFailures w2 where
    c: "copyFiles platform repoRoot worktreePath (worktreeCopyPatterns config)
          (worktreeCopyIgnores config) w1 = (copyFailures, w2)"
    by (cases "copyFiles platform repoRoot worktreePath (worktreeCopyPatterns config)
          (worktreeCopyIgnores config) w1")
  obtain results w3 where
    p: "runPostCreateCommands (runShell platform) (postCreateCmd config) worktreePath w2 =
          (results, w3)"
    by (cases "runPostCreateCommands (runShell platform) (postCreateCmd config) worktreePath w2")
  have "map fst results = postCreateCmd config"
    using runPostCreateCommands_commands[of "runShell platform" "postCreateCmd config"
        worktreePath w2] p by simp
  moreover have "result (createWorktree_spec platform config repoRoot worktreePath request w) =
             Inr \<lparr>resultPath = worktreePath,
                  warnings = copyFailures @ postCreateWarnings results\<rparr>"
    unfolding createWorktree_spec_def by (simp add: a ok c p)
  moreover have "steps (createWorktree_spec platform config repoRoot worktreePath request w) =
             GitWorktreeAdd worktreePath # FilesCopied worktreePath #
             map (\<lambda>(cmd, r). CommandRun cmd r) results"
    unfolding createWorktree_spec_def by (simp add: a ok c p)
  ultimately show ?thesis by blast
qed

lemma createWorktree_spec_rejected:
  assumes "\<not> success (fst (gitWorktreeAdd platform worktreePath request w))"
  shows "steps (createWorktree_spec platform config repoRoot worktreePath request w) =
           [GitWorktreeAdd worktreePath]"
proof -
  obtain added w1 where a: "gitWorktreeAdd platform worktreePath request w = (added, w1)"
    by (cases "gitWorktreeAdd platform worktreePath request w")
  with assms have "\<not> success added" by simp
  then show ?thesis unfolding createWorktree_spec_def by (simp add: a)
qed

text \<open>
  C7. When a post-create command of a create operation exits non-zero or
  cannot be spawned, the operation still succeeds: its result is the path of
  the worktree, reported on the output stream with exit status 0; the error
  stream has a warning line with the head
  \<open>Warning: post-create command failed:\<close> and the text of the command; the
  worktree was added and no step removes it; and every configured command was
  run, the failure stopping none.
\<close>

theorem C7_post_create_failure_is_warning:
  assumes "CommandRun cmd r \<in> set (steps
             (createWorktree_spec platform config repoRoot worktreePath request w))"
    and "commandFailed r"
  shows "(\<exists>created.
            result (createWorktree_spec platform config repoRoot worktreePath request w) =
              Inr created \<and> resultPath created = worktreePath) \<and>
         outputStream (report (result
           (createWorktree_spec platform config repoRoot worktreePath request w))) =
           [worktreePath] \<and>
         exitStatus (report (result
           (createWorktree_spec platform config repoRoot worktreePath request w))) = 0 \<and>
         (\<exists>line \<in> set (errorStream (report (result
            (createWorktree_spec platform config repoRoot worktreePath request w)))).
            sublist ''Warning: post-create command failed:'' line \<and> sublist cmd line) \<and>
         GitWorktreeAdd worktreePath \<in> set (steps
           (createWorktree_spec platform config repoRoot worktreePath request w)) \<and>
         (\<forall>p. GitWorktreeRemove p \<notin> set (steps
           (createWorktree_spec platform config repoRoot worktreePath request w))) \<and>
         (\<forall>other \<in> set (postCreateCmd config). \<exists>r'.
            CommandRun other r' \<in> set (steps
              (createWorktree_spec platform config repoRoot worktreePath request w)))"
proof -
  let ?run = "createWorktree_spec platform config repoRoot worktreePath request w"
  have ok: "success (fst (gitWorktreeAdd platform worktreePath request w))"
  proof (rule ccontr)
    assume "\<not> success (fst (gitWorktreeAdd platform worktreePath request w))"
    from createWorktree_spec_rejected[OF this, of config repoRoot] assms(1)
    show False by simp
  qed
  from createWorktree_spec_created[OF ok, of config repoRoot]
  obtain copyFailures results where
    cmds: "map fst results = postCreateCmd config"
    and res: "result ?run =
             Inr \<lparr>resultPath = worktreePath,
                  warnings = copyFailures @ postCreateWarnings results\<rparr>"
    and st: "steps ?run =
             GitWorktreeAdd worktreePath # FilesCopied worktreePath #
             map (\<lambda>(cmd, r). CommandRun cmd r) results"
    by blast
  have created: "\<exists>created. result ?run = Inr created \<and> resultPath created = worktreePath"
    unfolding res by simp
  have out: "outputStream (report (result ?run)) = [worktreePath]"
    and ex: "exitStatus (report (result ?run)) = 0"
    and err: "errorStream (report (result ?run)) = copyFailures @ postCreateWarnings results"
    unfolding res report_def by simp_all
  from assms(1) have "(cmd, r) \<in> set results"
    unfolding st by auto
  with assms(2) have "postCreateWarning cmd r \<in> set (errorStream (report (result ?run)))"
    unfolding err by (simp add: postCreateWarnings_failed)
  then have warned: "\<exists>line \<in> set (errorStream (report (result ?run))).
      sublist ''Warning: post-create command failed:'' line \<and> sublist cmd line"
    using sublist_postCreateWarning head_postCreateWarning by blast
  have added: "GitWorktreeAdd worktreePath \<in> set (steps ?run)"
    unfolding st by simp
  have kept: "\<forall>p. GitWorktreeRemove p \<notin> set (steps ?run)"
    unfolding st by auto
  have all_run: "\<forall>other \<in> set (postCreateCmd config).
      \<exists>r'. CommandRun other r' \<in> set (steps ?run)"
  proof
    fix other assume "other \<in> set (postCreateCmd config)"
    then have "other \<in> fst ` set results" using cmds by (metis set_map)
    then obtain r' where "(other, r') \<in> set results" by auto
    then have "CommandRun other r' \<in> set (steps ?run)" unfolding st by force
    then show "\<exists>r'. CommandRun other r' \<in> set (steps ?run)" ..
  qed
  from created out ex warned added kept all_run show ?thesis by blast
qed

lemma sample_create:
  "createWorktree_spec samplePlatform
     (DEFAULT_CONFIG\<lparr>postCreateCmd := [''this-command-does-not-exist-xyz'']\<rparr>)
     ''/home/dev/repo'' ''/home/dev/repo.worktree/wt''
     \<lparr>CreateRequest.name = ''wt'', sourceBranch = ''main'', newBranch = ''test-postcreate-fail'',
      basePath = ''/home/dev/repo.worktree'', isRemoteSource = False\<rparr> 0 =
   \<lparr>result =
      Inr \<lparr>resultPath = ''/home/dev/repo.worktree/wt'',
           warnings = [''Warning: post-create command failed: this-command-does-not-exist-xyz: command not found'']\<rparr>,
    steps =
      [GitWorktreeAdd ''/home/dev/repo.worktree/wt'', FilesCopied ''/home/dev/repo.worktree/wt'',
       CommandRun ''this-command-does-not-exist-xyz'' (SpawnFailed ''command not found'')],
    world = 3\<rparr>"
  by (simp add: createWorktree_spec_def samplePlatform_def sample_defs postCreateWarnings_def
      postCreateWarning_def commandFailed_def)

text \<open>The run of the test: one command, which cannot be spawned.\<close>

theorem C7_post_create_failure_is_warning_witness:
  "CommandRun ''this-command-does-not-exist-xyz'' (SpawnFailed ''command not found'') \<in>
     set (steps (createWorktree_spec samplePlatform
       (DEFAULT_CONFIG\<lparr>postCreateCmd := [''this-command-does-not-exist-xyz'']\<rparr>)
       ''/home/dev/repo'' ''/home/dev/repo.worktree/wt''
       \<lparr>CreateRequest.name = ''wt'', sourceBranch = ''main'',
        newBranch = ''test-postcreate-fail'', basePath = ''/home/dev/repo.worktree'',
        isRemoteSource = False\<rparr> 0)) \<and>
   commandFailed (SpawnFailed ''command not found'') \<and>
   outputStream (report (result (createWorktree_spec samplePlatform
       (DEFAULT_CONFIG\<lparr>postCreateCmd := [''this-command-does-not-exist-xyz'']\<rparr>)
       ''/home/dev/repo'' ''/home/dev/repo.worktree/wt''
       \<lparr>CreateRequest.name = ''wt'', sourceBranch = ''main'',
        newBranch = ''test-postcreate-fail'', basePath = ''/home/dev/repo.worktree'',
        isRemoteSource = False\<rparr> 0))) = [''/home/dev/repo.worktree/wt''] \<and>
   exitStatus (report (result (createWorktree_spec samplePlatform
       (DEFAULT_CONFIG\<lparr>postCreateCmd := [''this-command-does-not-exist-xyz'']\<rparr>)
       ''/home/dev/repo'' ''/home/dev/repo.worktree/wt''
       \<lparr>CreateRequest.name = ''wt'', sourceBranch = ''main'',
        newBranch = ''test-postcreate-fail'', basePath = ''/home/dev/repo.worktree'',
        isRemoteSource = False\<rparr> 0))) = 0"
proof -
  let ?run = "createWorktree_spec samplePlatform
       (DEFAULT_CONFIG\<lparr>postCreateCmd := [''this-command-does-not-exist-xyz'']\<rparr>)
       ''/home/dev/repo'' ''/home/dev/repo.worktree/wt''
       \<lparr>CreateRequest.name = ''wt'', sourceBranch = ''main'',
        newBranch = ''test-postcreate-fail'', basePath = ''/home/dev/repo.worktree'',
        isRemoteSource = False\<rparr> 0"
  have h1: "CommandRun ''this-command-does-not-exist-xyz'' (SpawnFailed ''command not found'') \<in>
     set (steps ?run)"
    unfolding sample_create by simp
  have h2: "commandFailed (SpawnFailed ''command not found'')"
    by (simp add: commandFailed_def)
  from C7_post_create_failure_is_warning[OF h1 h2] h1 h2 show ?thesis by blast
qed

section \<open>The default configuration\<close>

text \<open>
  C8. Parsing the empty object succeeds, no field being required, and gives
  the documented default of each of the seven fields.
\<close>

theorem C8_default_config:
  "DEFAULT_CONFIG =
     \<lparr>worktreeCopyPatterns = [''.env*'', ''.vscode/**''],
      worktreeCopyIgnores =
        [''**/node_modules/**'', ''**/dist/**'', ''**/.git/**'', ''**/Thumbs.db'', ''**/.DS_Store''],
      worktreePathTemplate = ''$BASE_PATH.worktree'',
      postCreateCmd = [],
      terminalCommand = '''',
      deleteBranchWithWorktree = False,
      showRemoteBranches = True\<rparr>"
  by (simp add: DEFAULT_CONFIG_def WorktreeConfigSchema_parse_def emptyObject_def
      withDefault_def)

section \<open>A remote source when remote branches are not shown\<close>

lemma runCreate_ListBranchesD:
  assumes "ListBranches includeRemote \<in> set (trace (runCreate utils svc args))"
  shows "includeRemote = showRemoteBranches (getConfig svc)"
proof (cases utils svc args rule: runCreate_outcomes)
  case (Reached argName argSource repoInfo allBranches info)
  from runCreate_reached[OF Reached] assms show ?thesis
    by (auto split: option.splits)
qed (use assms in simp_all)

lemma listBranches_spec_local_names:
  "BranchInfo.name ` set (listBranches_spec repo False) = set (localBranches repo)"
  by (force simp: listBranches_spec_def)

lemma listBranches_spec_remote:
  "src \<in> set (remoteBranches repo) \<Longrightarrow>
   \<lparr>BranchInfo.name = src, isRemote = True, isCurrent = False\<rparr> \<in> set (listBranches_spec repo True)"
  by (auto simp: listBranches_spec_def)

text \<open>
  C10, as amended. When \<open>showRemoteBranches\<close> is false, \<open>runCreate\<close> looks the
  source up in the listing without the remote branches, the only one it asks
  for. So for a source that is the name of a remote branch of the repository,
  and of no local one, \<open>runCreate\<close> never calls \<open>createWorktree\<close> and rejects,
  although the listing with the remote branches has that branch. The error is
  the one of the first check of \<open>runCreate\<close> that fails:
  \<open>Missing required argument: --name (-n)\<close> when the name is absent or empty;
  else \<open>Missing required argument: --source (-s)\<close> when the source is empty;
  else \<open>Invalid directory name: \<close> followed by the error of
  \<open>validateDirectoryName\<close>, when it returns one (not empty) for the name; else
  the error of \<open>getRepositoryInfo\<close>, when it rejects; else the not-found error
  \<open>Source branch '<source>' does not exist\<close>.
\<close>

theorem C10_remote_source_hidden:
  assumes "listBranches svc = (\<lambda>includeRemote. Inr (listBranches_spec repo includeRemote))"
    and "showRemoteBranches (getConfig svc) = False"
    and "source args = Some src"
    and "src \<in> set (remoteBranches repo)"
    and "src \<notin> set (localBranches repo)"
  shows "listBranches svc True = Inr (listBranches_spec repo True) \<and>
         \<lparr>BranchInfo.name = src, isRemote = True, isCurrent = False\<rparr> \<in>
           set (listBranches_spec repo True) \<and>
         ListBranches True \<notin> set (trace (runCreate utils svc args)) \<and>
         (\<forall>req. CreateWorktree req \<notin> set (trace (runCreate utils svc args))) \<and>
         thrown (runCreate utils svc args) =
           Some (case truthy (CliArgs.name args) of
                   None \<Rightarrow> ''Missing required argument: --name (-n)''
                 | Some argName \<Rightarrow>
                     if src = [] then ''Missing required argument: --source (-s)''
                     else (case truthy (validateDirectoryName utils argName) of
                             Some dirError \<Rightarrow> ''Invalid directory name: '' @ dirError
                           | None \<Rightarrow>
                               (case getRepositoryInfo svc of
                                  Inl err \<Rightarrow> err
                                | Inr repoInfo \<Rightarrow> sourceNotFoundMessage src)))"
proof -
  have listed: "listBranches svc (showRemoteBranches (getConfig svc)) =
      Inr (listBranches_spec repo False)"
    unfolding assms(1,2) by simp
  have unlisted: "src \<notin> BranchInfo.name ` set (listBranches_spec repo False)"
    unfolding listBranches_spec_local_names using assms(5) .
  have shown: "listBranches svc True = Inr (listBranches_spec repo True)"
    unfolding assms(1) by simp
  have rejected: "\<forall>req. CreateWorktree req \<notin> set (trace (runCreate utils svc args))"
    using runCreate_unlisted_rejected[OF assms(3) listed unlisted] by simp
  have only_local: "ListBranches True \<notin> set (trace (runCreate utils svc args))"
    using runCreate_ListBranchesD[of True utils svc args] assms(2) by auto
  from shown listBranches_spec_remote[OF assms(4)] only_local rejected
    runCreate_unlisted_thrown[OF assms(3) listed unlisted, of utils]
  show ?thesis by blast
qed

lemma sample_hidden_names:
  "localBranches sampleRepository = [''main'']"
  "remoteBranches sampleRepository = [''origin/HEAD'', ''origin/main'', ''origin/feat/x'']"
  by (simp_all add: sampleRepository_def)

text \<open>The sample repository with remote branches not shown: \<open>origin/feat/x\<close> is not found.\<close>

theorem C10_remote_source_hidden_witness:
  "listBranches (sampleService (DEFAULT_CONFIG\<lparr>showRemoteBranches := False\<rparr>)) True =
     Inr (listBranches_spec sampleRepository True) \<and>
   showRemoteBranches (getConfig (sampleService (DEFAULT_CONFIG\<lparr>showRemoteBranches := False\<rparr>))) =
     False \<and>
   source \<lparr>command = ''create'', CliArgs.name = Some ''wt'', source = Some ''origin/feat/x'',
           branch = None\<rparr> = Some ''origin/feat/x'' \<and>
   ''origin/feat/x'' \<in> set (remoteBranches sampleRepository) \<and>
   ''origin/feat/x'' \<notin> set (localBranches sampleRepository) \<and>
   thrown (runCreate sampleUtils (sampleService (DEFAULT_CONFIG\<lparr>showRemoteBranches := False\<rparr>))
     \<lparr>command = ''create'', CliArgs.name = Some ''wt'', source = Some ''origin/feat/x'',
      branch = None\<rparr>) = Some (sourceNotFoundMessage ''origin/feat/x'')"
proof -
  let ?svc = "sampleService (DEFAULT_CONFIG\<lparr>showRemoteBranches := False\<rparr>)"
  let ?args = "\<lparr>command = ''create'', CliArgs.name = Some ''wt'',
                source = Some ''origin/feat/x'', branch = None\<rparr>"
  have h1: "listBranches ?svc = (\<lambda>includeRemote. Inr (listBranches_spec sampleRepository includeRemote))"
    by (simp add: sampleService_def)
  have h2: "showRemoteBranches (getConfig ?svc) = False" by (simp add: sampleService_def)
  have h3: "source ?args = Some ''origin/feat/x''" by simp
  have h4: "''origin/feat/x'' \<in> set (remoteBranches sampleRepository)"
    unfolding sample_hidden_names by simp
  have h5: "''origin/feat/x'' \<notin> set (localBranches sampleRepository)"
    unfolding sample_hidden_names by simp
  have n: "truthy (Some ''wt'') = Some ''wt''" by (simp add: truthy_def)
  have r: "getRepositoryInfo ?svc = Inr \<lparr>path = ''/home/dev/repo''\<rparr>"
    by (simp add: sampleService_def)
  from C10_remote_source_hidden[OF h1 h2 h3 h4 h5, of sampleUtils]
  have "thrown (runCreate sampleUtils ?svc ?args) = Some (sourceNotFoundMessage ''origin/feat/x'')"
    by (simp add: n sample_validators(3) r)
  with h1 h2 h3 h4 h5 show ?thesis by simp
qed

text \<open>
  C10 as it is stated fails in two ways. In the repository where a local
  branch has the name of the remote branch \<open>origin/feat/x\<close>, and with remote
  branches not shown, the request for the source \<open>origin/feat/x\<close> finds the
  local branch: \<open>createWorktree\<close> is called and the run resolves. And in the
  sample repository, with the name \<open>dir/with/slash\<close>, which the repository's
  test of \<open>runCreate\<close> has rejected as an invalid directory name, the error
  for the remote source \<open>origin/feat/x\<close> is the one of the directory name,
  raised before the branches are listed.
\<close>

theorem C10_counterexample:
  "showRemoteBranches (getConfig homonymService) = False \<and>
   listBranches homonymService True = Inr (listBranches_spec homonymRepository True) \<and>
   \<lparr>BranchInfo.name = ''origin/feat/x'', isRemote = True, isCurrent = False\<rparr> \<in>
     set (listBranches_spec homonymRepository True) \<and>
   runCreate sampleUtils homonymService
     \<lparr>command = ''create'', CliArgs.name = Some ''wt'', source = Some ''origin/feat/x'',
      branch = None\<rparr> =
     \<lparr>trace =
        [ValidateDirectoryName ''wt'', GetRepositoryInfo, ListBranches False,
         CreateWorktree
           \<lparr>CreateRequest.name = ''wt'', sourceBranch = ''origin/feat/x'',
            newBranch = ''origin/feat/x'', basePath = ''/home/dev/repo.worktree'',
            isRemoteSource = False\<rparr>,
         ConsoleLog ''/home/dev/repo.worktree/wt''],
      thrown = None\<rparr> \<and>
   showRemoteBranches (getConfig (sampleService (DEFAULT_CONFIG\<lparr>showRemoteBranches := False\<rparr>))) =
     False \<and>
   listBranches (sampleService (DEFAULT_CONFIG\<lparr>showRemoteBranches := False\<rparr>)) True =
     Inr (listBranches_spec sampleRepository True) \<and>
   \<lparr>BranchInfo.name = ''origin/feat/x'', isRemote = True, isCurrent = False\<rparr> \<in>
     set (listBranches_spec sampleRepository True) \<and>
   trace (runCreate sampleUtils (sampleService (DEFAULT_CONFIG\<lparr>showRemoteBranches := False\<rparr>))
     \<lparr>command = ''create'', CliArgs.name = Some ''dir/with/slash'',
      source = Some ''origin/feat/x'', branch = None\<rparr>) =
     [ValidateDirectoryName ''dir/with/slash''] \<and>
   map_option (take 24)
     (thrown (runCreate sampleUtils (sampleService (DEFAULT_CONFIG\<lparr>showRemoteBranches := False\<rparr>))
       \<lparr>command = ''create'', CliArgs.name = Some ''dir/with/slash'',
        source = Some ''origin/feat/x'', branch = None\<rparr>)) =
     Some ''Invalid directory name: '' \<and>
   thrown (runCreate sampleUtils (sampleService (DEFAULT_CONFIG\<lparr>showRemoteBranches := False\<rparr>))
     \<lparr>command = ''create'', CliArgs.name = Some ''dir/with/slash'',
      source = Some ''origin/feat/x'', branch = None\<rparr>) \<noteq>
     Some (sourceNotFoundMessage ''origin/feat/x'')"
proof -
  have homonym: "runCreate sampleUtils homonymService
     \<lparr>command = ''create'', CliArgs.name = Some ''wt'', source = Some ''origin/feat/x'',
      branch = None\<rparr> =
     \<lparr>trace =
        [ValidateDirectoryName ''wt'', GetRepositoryInfo, ListBranches False,
         CreateWorktree
           \<lparr>CreateRequest.name = ''wt'', sourceBranch = ''origin/feat/x'',
            newBranch = ''origin/feat/x'', basePath = ''/home/dev/repo.worktree'',
            isRemoteSource = False\<rparr>,
         ConsoleLog ''/home/dev/repo.worktree/wt''],
      thrown = None\<rparr>"
    by (simp add: run_defs sample_defs homonymService_def homonymRepository_def)
  have homonym_listed:
    "\<lparr>BranchInfo.name = ''origin/feat/x'', isRemote = True, isCurrent = False\<rparr> \<in>
       set (listBranches_spec homonymRepository True)"
    "listBranches homonymService True = Inr (listBranches_spec homonymRepository True)"
    "showRemoteBranches (getConfig homonymService) = False"
    by (simp_all add: listBranches_spec_def homonymRepository_def homonymService_def)
  have invalid: "runCreate sampleUtils (sampleService (DEFAULT_CONFIG\<lparr>showRemoteBranches := False\<rparr>))
     \<lparr>command = ''create'', CliArgs.name = Some ''dir/with/slash'',
      source = Some ''origin/feat/x'', branch = None\<rparr> =
     \<lparr>trace = [ValidateDirectoryName ''dir/with/slash''],
      thrown = Some ''Invalid directory name: Directory name cannot contain path separators''\<rparr>"
    by (simp add: run_defs sample_defs)
  have listed:
    "\<lparr>BranchInfo.name = ''origin/feat/x'', isRemote = True, isCurrent = False\<rparr> \<in>
       set (listBranches_spec sampleRepository True)"
    "listBranches (sampleService (DEFAULT_CONFIG\<lparr>showRemoteBranches := False\<rparr>)) True =
       Inr (listBranches_spec sampleRepository True)"
    "showRemoteBranches
       (getConfig (sampleService (DEFAULT_CONFIG\<lparr>showRemoteBranches := False\<rparr>))) = False"
    by (simp_all add: listBranches_spec_def sampleRepository_def sampleService_def)
  show ?thesis
    unfolding homonym invalid
    using homonym_listed listed by (simp add: sourceNotFoundMessage_def)
qed

end
